theory Spec2Isabelle
  imports Complex_Main "HOL-Library.Word" "HOL-Library.Sublist"
begin

section \<open>Engine values used by the game code\<close>

text \<open>
  A C++ \<^verbatim>\<open>float\<close> is modelled by the rational number it denotes. Rounding of
  arithmetic, infinities, NaN and the sign of zero are outside the model; no statement
  below depends on a law of rational arithmetic that floats lack.
\<close>

type_synonym float = rat

text \<open>\<^verbatim>\<open>Vec3\<close> (fields x, y, z) and its component-wise \<^verbatim>\<open>operator+\<close>.\<close>

datatype Vec3 = Vec3 (vec_x: float) (vec_y: float) (vec_z: float)

definition Vec3_ZERO :: Vec3 where
  "Vec3_ZERO = Vec3 0 0 0"

definition Vec3_add :: "Vec3 \<Rightarrow> Vec3 \<Rightarrow> Vec3" where
  "Vec3_add a b = Vec3 (vec_x a + vec_x b) (vec_y a + vec_y b) (vec_z a + vec_z b)"

record EulerAngles =
  m_yawDegrees :: float
  m_pitchDegrees :: float
  m_rollDegrees :: float

definition EulerAngles_ZERO :: EulerAngles where
  "EulerAngles_ZERO = \<lparr>m_yawDegrees = 0, m_pitchDegrees = 0, m_rollDegrees = 0\<rparr>"

text \<open>\<^verbatim>\<open>Rgba8\<close>: four \<^verbatim>\<open>unsigned char\<close> channels r, g, b, a.\<close>

datatype Rgba8 = Rgba8 "8 word" "8 word" "8 word" "8 word"

definition Rgba8_WHITE :: Rgba8 where
  "Rgba8_WHITE = Rgba8 255 255 255 255"

subsection \<open>Number formatting\<close>

definition digit_char :: "nat \<Rightarrow> char" where
  "digit_char d = ''0123456789'' ! d"

fun decimal :: "nat \<Rightarrow> string" where
  "decimal n =
     (if n < 10 then [digit_char n] else decimal (n div 10) @ [digit_char (n mod 10)])"

declare decimal.simps [simp del]

text \<open>\<^verbatim>\<open>std::to_string(int)\<close>, also \<^verbatim>\<open>%d\<close>.\<close>

definition to_string_int :: "int \<Rightarrow> string" where
  "to_string_int i = (if i < 0 then ''-'' else '''') @ decimal (nat \<bar>i\<bar>)"

definition round_half_even :: "rat \<Rightarrow> int" where
  "round_half_even q =
     (let f = \<lfloor>q\<rfloor>; r = q - of_int f
      in if 1 / 2 < r \<or> (r = 1 / 2 \<and> odd f) then f + 1 else f)"

definition zero_pad :: "nat \<Rightarrow> string \<Rightarrow> string" where
  "zero_pad p s = replicate (p - length s) CHR ''0'' @ s"

text \<open>Fixed notation with \<open>p\<close> decimals: \<^verbatim>\<open>%.pf\<close> and \<^verbatim>\<open>{:.pf}\<close>.\<close>

definition format_fixed :: "nat \<Rightarrow> float \<Rightarrow> string" where
  "format_fixed p v =
     (let n = nat (round_half_even (\<bar>v\<bar> * 10 ^ p));
          ip = n div 10 ^ p;
          fp = n mod 10 ^ p
      in (if v < 0 then ''-'' else '''') @ decimal ip @
         (if p = 0 then '''' else ''.'' @ zero_pad p (decimal fp)))"

text \<open>\<^verbatim>\<open>std::to_string(float)\<close> prints as \<^verbatim>\<open>%f\<close>: six decimals.\<close>

definition to_string :: "float \<Rightarrow> string" where
  "to_string v = format_fixed 6 v"

text \<open>\<^verbatim>\<open>static_cast<int>(float)\<close>: truncation towards zero.\<close>

definition truncate_float :: "float \<Rightarrow> int" where
  "truncate_float v = (if v < 0 then - \<lfloor>- v\<rfloor> else \<lfloor>v\<rfloor>)"

text \<open>\<^verbatim>\<open>static_cast<unsigned char>(int)\<close>: reduction modulo 256.\<close>

definition to_uchar :: "int \<Rightarrow> 8 word" where
  "to_uchar i = word_of_int i"

section \<open>The scripting bridge's data\<close>

text \<open>
  Modelled from the spec: the engine headers \<^verbatim>\<open>Engine/Script/IScriptableObject.hpp\<close> and
  \<^verbatim>\<open>Engine/Script/ScriptTypeExtractor.hpp\<close> are not part of the game's sources. A script
  value (\<^verbatim>\<open>std::any\<close>) is a tagged variant over int, float, string, bool and object
  reference, or empty; \<^verbatim>\<open>ScriptArgs\<close> is an ordered sequence of them.
\<close>

datatype any = AnyEmpty | AnyInt int | AnyFloat float | AnyString string | AnyBool bool
  | AnyObject nat

type_synonym ScriptArgs = "any list"

text \<open>
  Modelled from the spec: \<^verbatim>\<open>ScriptMethodResult\<close> is either a success with an optional
  string or bool payload, or an error with a message; the field \<^verbatim>\<open>success\<close> tells which.
\<close>

datatype ScriptMethodResult = Success any | Error string

fun success :: "ScriptMethodResult \<Rightarrow> bool" where
  "success (Success v) = True"
| "success (Error msg) = False"

text \<open>Modelled from the spec: \<^verbatim>\<open>ScriptMethodInfo\<close>, a static descriptor.\<close>

record ScriptMethodInfo =
  info_name :: string
  info_description :: string
  info_parameters :: "string list"
  info_returnType :: string

definition ScriptMethodInfo :: "string \<Rightarrow> string \<Rightarrow> string list \<Rightarrow> string \<Rightarrow> ScriptMethodInfo"
  where
  "ScriptMethodInfo n d ps r =
     \<lparr>info_name = n, info_description = d, info_parameters = ps, info_returnType = r\<rparr>"

subsection \<open>Exceptions and outcomes\<close>

text \<open>
  A thrown C++ object either derives from \<^verbatim>\<open>std::exception\<close> (and has a
  \<^verbatim>\<open>what()\<close> text) or does not. A call returns a value, leaves by an exception, or ends
  the process (\<^verbatim>\<open>ERROR_AND_DIE\<close>, a null dereference). The state reached so far is kept
  with a return and with a throw.
\<close>

datatype exn = StdException string | OtherException

datatype ('a, 's) outcome = Return 'a 's | Throw exn 's | Abort string

definition and_then ::
  "('a, 's) outcome \<Rightarrow> ('a \<Rightarrow> 's \<Rightarrow> ('b, 's) outcome) \<Rightarrow> ('b, 's) outcome" where
  "and_then m f = (case m of Return v s \<Rightarrow> f v s | Throw e s \<Rightarrow> Throw e s | Abort t \<Rightarrow> Abort t)"

text \<open>\<^verbatim>\<open>try { m } catch (std::exception const& e) { h(e.what()) }\<close>\<close>

definition try_catch ::
  "('a, 's) outcome \<Rightarrow> (string \<Rightarrow> 's \<Rightarrow> ('a, 's) outcome) \<Rightarrow> ('a, 's) outcome" where
  "try_catch m h =
     (case m of
        Return v s \<Rightarrow> Return v s
      | Throw (StdException what) s \<Rightarrow> h what s
      | Throw OtherException s \<Rightarrow> Throw OtherException s
      | Abort t \<Rightarrow> Abort t)"

text \<open>An extraction does not touch the state: it yields a value or throws.\<close>

definition extraction :: "exn + 'a \<Rightarrow> 's \<Rightarrow> ('a, 's) outcome" where
  "extraction r s = (case r of Inl e \<Rightarrow> Throw e s | Inr v \<Rightarrow> Return v s)"

subsection \<open>Argument extraction\<close>

text \<open>
  Modelled from the spec: \<^verbatim>\<open>ScriptTypeExtractor::ValidateArgCount\<close> succeeds silently when
  the count matches and otherwise returns the error
  \<open><methodName> expects <expectedCount> arguments, got <actual>\<close>.
\<close>

definition ValidateArgCount :: "ScriptArgs \<Rightarrow> nat \<Rightarrow> string \<Rightarrow> ScriptMethodResult" where
  "ValidateArgCount args expectedCount methodName =
     (if length args = expectedCount then Success AnyEmpty
      else Error (methodName @ '' expects '' @ decimal expectedCount @ '' arguments, got ''
                  @ decimal (length args)))"

text \<open>
  Modelled from the spec: \<^verbatim>\<open>ScriptTypeExtractor::ExtractInt\<close> (engine header, not in the
  game's sources). A numeric read accepts any numeric representation and nothing else is
  coerced; a failed read throws an exception with a descriptive text, which the call sites
  catch as \<^verbatim>\<open>std::exception\<close>. The text itself is not given by the spec.
\<close>

definition ExtractInt :: "any \<Rightarrow> exn + int" where
  "ExtractInt v =
     (case v of
        AnyInt i \<Rightarrow> Inr i
      | AnyFloat f \<Rightarrow> Inr (truncate_float f)
      | _ \<Rightarrow> Inl (StdException ''ExtractInt: value is not a number''))"

text \<open>
  Modelled from the spec: \<^verbatim>\<open>ScriptTypeExtractor::ExtractFloat\<close>, a numeric read like
  \<^verbatim>\<open>ExtractInt\<close>.
\<close>

definition ExtractFloat :: "any \<Rightarrow> exn + float" where
  "ExtractFloat v =
     (case v of
        AnyFloat f \<Rightarrow> Inr f
      | AnyInt i \<Rightarrow> Inr (of_int i)
      | _ \<Rightarrow> Inl (StdException ''ExtractFloat: value is not a number''))"

text \<open>
  Modelled from the spec: \<^verbatim>\<open>ScriptTypeExtractor::ExtractString\<close> accepts only a script
  string; a string is never parsed as a number nor a number printed as a string.
\<close>

definition ExtractString :: "any \<Rightarrow> exn + string" where
  "ExtractString v =
     (case v of
        AnyString s \<Rightarrow> Inr s
      | _ \<Rightarrow> Inl (StdException ''ExtractString: value is not a string''))"

text \<open>
  Modelled from the spec: \<^verbatim>\<open>ExtractVec3(args, startIndex)\<close> reads exactly three consecutive
  numeric arguments as (x, y, z), in that order.
\<close>

definition ExtractVec3 :: "ScriptArgs \<Rightarrow> nat \<Rightarrow> exn + Vec3" where
  "ExtractVec3 args startIndex =
     (if length args < startIndex + 3
      then Inl (StdException ''ExtractVec3: not enough arguments'')
      else case ExtractFloat (args ! startIndex) of
             Inl e \<Rightarrow> Inl e
           | Inr vx \<Rightarrow>
               (case ExtractFloat (args ! (startIndex + 1)) of
                  Inl e \<Rightarrow> Inl e
                | Inr vy \<Rightarrow>
                    (case ExtractFloat (args ! (startIndex + 2)) of
                       Inl e \<Rightarrow> Inl e
                     | Inr vz \<Rightarrow> Inr (Vec3 vx vy vz))))"

section \<open>The game's state\<close>

datatype eGameState = ATTRACT | GAME

text \<open>\<^verbatim>\<open>Entity\<close> (Entity.hpp) with the defaults of its member initialisers.\<close>

record Entity =
  m_position :: Vec3
  m_velocity :: Vec3
  m_orientation :: EulerAngles
  m_angularVelocity :: EulerAngles
  m_color :: Rgba8

text \<open>
  A \<^verbatim>\<open>Prop\<close> adds its vertex list and texture. The vertex data is recorded only as the
  shape whose vertices were appended; the texture as the file it was loaded from.
\<close>

datatype local_verts = CubeVerts | SphereVerts | GridVerts

record Prop = Entity +
  m_vertexes :: "local_verts list"
  m_texture :: "string option"

text \<open>The \<^verbatim>\<open>Player\<close>'s camera object belongs to the renderer; its entity fields remain.\<close>

type_synonym Player = Entity

definition Player_new :: Player where
  "Player_new =
     \<lparr>m_position = Vec3_ZERO, m_velocity = Vec3_ZERO, m_orientation = EulerAngles_ZERO,
      m_angularVelocity = EulerAngles_ZERO, m_color = Rgba8_WHITE\<rparr>"

definition Prop_new :: "string option \<Rightarrow> Prop" where
  "Prop_new texture =
     \<lparr>m_position = Vec3_ZERO, m_velocity = Vec3_ZERO, m_orientation = EulerAngles_ZERO,
      m_angularVelocity = EulerAngles_ZERO, m_color = Rgba8_WHITE,
      m_vertexes = [], m_texture = texture\<rparr>"

definition InitializeLocalVertsForCube :: "Prop \<Rightarrow> Prop" where
  "InitializeLocalVertsForCube p = p\<lparr>m_vertexes := m_vertexes p @ [CubeVerts]\<rparr>"

definition InitializeLocalVertsForSphere :: "Prop \<Rightarrow> Prop" where
  "InitializeLocalVertsForSphere p = p\<lparr>m_vertexes := m_vertexes p @ [SphereVerts]\<rparr>"

definition InitializeLocalVertsForGrid :: "Prop \<Rightarrow> Prop" where
  "InitializeLocalVertsForGrid p = p\<lparr>m_vertexes := m_vertexes p @ [GridVerts]\<rparr>"

text \<open>
  The members of \<^verbatim>\<open>Game\<close> (Game.hpp) that hold game data. \<^verbatim>\<open>m_player\<close> is a pointer
  the code tests for null, hence an option; \<^verbatim>\<open>m_props\<close> holds only pointers obtained from
  \<^verbatim>\<open>new\<close>, hence a list of props.
\<close>

record Game =
  m_player :: "Player option"
  m_props :: "Prop list"
  m_gameState :: eGameState
  m_originalPlayerPosition :: Vec3
  m_cameraShakeActive :: bool

text \<open>
  Calls that only hand data to an engine subsystem (the logger, the debugger output, the
  renderer, the debug renderer, the clock) are recorded in order. A log line keeps its
  category, verbosity and text; an engine call keeps the name of the function called.
\<close>

datatype eLogVerbosity = Verbosity_Log | Verbosity_Display | Verbosity_Warning | Verbosity_Error

datatype ext_call =
    DaemonLog string eLogVerbosity string
  | DebuggerPrintf string
  | EngineCall string

text \<open>\<^verbatim>\<open>g_scriptSubsystem\<close> is a global pointer, null until the application creates it.\<close>

record ScriptSubsystem =
  IsInitialized :: bool

text \<open>
  The process state the bridge can reach: the game behind \<^verbatim>\<open>g_game\<close>, the static
  \<^verbatim>\<open>App::m_isQuitting\<close>, the script subsystem pointer, the state of the random number
  generator behind \<^verbatim>\<open>g_rng\<close>, and the record of calls made to engine subsystems.
\<close>

record world =
  g_game :: Game
  m_isQuitting :: bool
  g_scriptSubsystem :: "ScriptSubsystem option"
  g_rng :: nat
  ext_calls :: "ext_call list"

subsection \<open>The engine as seen by the game\<close>

text \<open>What the script subsystem reports after running a piece of script.\<close>

record ScriptReport =
  script_success :: bool
  GetLastResult :: string
  HasError :: bool
  GetLastError :: string

datatype key = KEYCODE_ESC | KEYCODE_F8 | KEYCODE_F9 | KEYCODE_M | KEYCODE_P | KEYCODE_O
  | KEYCODE_T | KEYCODE_J | KEYCODE_CHAR_K | KEYCODE_CHAR_L | VK_F2 | VK_F3
  | NUMCODE_1 | NUMCODE_2 | NUMCODE_3 | NUMCODE_4 | NUMCODE_5 | NUMCODE_6 | NUMCODE_7

datatype button = XBOX_BUTTON_BACK | XBOX_BUTTON_START | XBOX_BUTTON_B | XBOX_BUTTON_Y
  | XBOX_BUTTON_X

text \<open>
  Everything the game reads from engine subsystems during one frame is a parameter: clock
  readings, input state, the random number generator, and the effect of running script
  code (which may call back into the bridge, hence a function on the whole state).
  \<^verbatim>\<open>Player::Update\<close> and the three \<^verbatim>\<open>ValidatePhaseNModuleSystem\<close> self-tests are
  parameters too: the former is trigonometry on input readings, the latter only drive the
  module loader and the logger.

  Engine code may raise. Running script code and the module self-tests each return, throw
  or end the process, with the state they reached. \<^verbatim>\<open>Player::Update\<close> yields the player
  as it leaves it and the exception it raised, if any. Every other call that hands work to
  the renderer, the debug renderer or the clock either is carried out or raises the
  exception \<^verbatim>\<open>engine_throws\<close> gives for it in the state it is called in. Reading a clock
  or an input state, rolling the random number generator and writing a log line return.

  C++ leaves open the order in which the arguments of one call are evaluated;
  \<^verbatim>\<open>arguments_right_to_left\<close> tells whether the compiler evaluates the last argument first
  or the first.
\<close>

record env =
  gameClock_GetDeltaSeconds :: float
  gameClock_GetTotalSeconds :: float
  systemClock_GetDeltaSeconds :: float
  sinf :: "float \<Rightarrow> float"
  WasKeyJustPressed :: "key \<Rightarrow> bool"
  WasKeyJustReleased :: "key \<Rightarrow> bool"
  IsKeyDown :: "key \<Rightarrow> bool"
  WasButtonJustPressed :: "button \<Rightarrow> bool"
  WasButtonJustReleased :: "button \<Rightarrow> bool"
  RollRandomIntInRange :: "nat \<Rightarrow> int \<Rightarrow> int \<Rightarrow> int \<times> nat"
  arguments_right_to_left :: bool
  ExecuteScript :: "string \<Rightarrow> world \<Rightarrow> (ScriptReport, world) outcome"
  ExecuteScriptFile :: "string \<Rightarrow> world \<Rightarrow> (ScriptReport, world) outcome"
  ExecuteRegisteredScript :: "string \<Rightarrow> string \<Rightarrow> world \<Rightarrow> (ScriptReport, world) outcome"
  ValidatePhaseModuleSystem :: "nat \<Rightarrow> world \<Rightarrow> (unit, world) outcome"
  Player_Update :: "float \<Rightarrow> bool \<Rightarrow> Player \<Rightarrow> Player \<times> exn option"
  engine_throws :: "string \<Rightarrow> world \<Rightarrow> exn option"
  scriptSubsystem_HasError :: bool
  read_file :: "string \<Rightarrow> string option"

subsection \<open>Small steps on the state\<close>

definition emit :: "ext_call \<Rightarrow> world \<Rightarrow> world" where
  "emit c w = w\<lparr>ext_calls := ext_calls w @ [c]\<rparr>"

definition DAEMON_LOG :: "string \<Rightarrow> eLogVerbosity \<Rightarrow> string \<Rightarrow> world \<Rightarrow> world" where
  "DAEMON_LOG category verbosity message w = emit (DaemonLog category verbosity message) w"

definition update_game :: "(Game \<Rightarrow> Game) \<Rightarrow> world \<Rightarrow> world" where
  "update_game f w = w\<lparr>g_game := f (g_game w)\<rparr>"

text \<open>A sequence of statements, each a step on the state.\<close>

definition run_all :: "('s \<Rightarrow> 's) list \<Rightarrow> 's \<Rightarrow> 's" where
  "run_all steps s = fold (\<lambda>step t. step t) steps s"

text \<open>\<^verbatim>\<open>if (c) step;\<close>\<close>

definition when_do :: "bool \<Rightarrow> ('s \<Rightarrow> 's) \<Rightarrow> 's \<Rightarrow> 's" where
  "when_do c step s = (if c then step s else s)"

text \<open>Statements that may end the process are sequenced until one does.\<close>

definition pure_step :: "('s \<Rightarrow> 's) \<Rightarrow> 's \<Rightarrow> (unit, 's) outcome" where
  "pure_step step s = Return () (step s)"

fun run_steps :: "('s \<Rightarrow> (unit, 's) outcome) list \<Rightarrow> 's \<Rightarrow> (unit, 's) outcome" where
  "run_steps [] s = Return () s"
| "run_steps (step # rest) s = and_then (step s) (\<lambda>u. run_steps rest)"

text \<open>A call that hands work to an engine subsystem: recorded when it returns.\<close>

definition engine :: "env \<Rightarrow> string \<Rightarrow> world \<Rightarrow> (unit, world) outcome" where
  "engine e callee w =
     (case engine_throws e callee w of
        None \<Rightarrow> Return () (emit (EngineCall callee) w)
      | Some ex \<Rightarrow> Throw ex w)"

text \<open>\<^verbatim>\<open>if (c) step;\<close> for a step that may not return.\<close>

definition when_step ::
  "bool \<Rightarrow> ('s \<Rightarrow> (unit, 's) outcome) \<Rightarrow> 's \<Rightarrow> (unit, 's) outcome" where
  "when_step c step s = (if c then step s else Return () s)"

section \<open>Game.cpp\<close>

definition IsAttractMode :: "world \<Rightarrow> bool" where
  "IsAttractMode w = (m_gameState (g_game w) = ATTRACT)"

definition GetGameState :: "world \<Rightarrow> eGameState" where
  "GetGameState w = m_gameState (g_game w)"

definition SetGameState :: "eGameState \<Rightarrow> world \<Rightarrow> world" where
  "SetGameState newState w = update_game (\<lambda>g. g\<lparr>m_gameState := newState\<rparr>) w"

text \<open>\<^verbatim>\<open>App::RequestQuit\<close> (App.cpp).\<close>

definition App_RequestQuit :: "world \<Rightarrow> world" where
  "App_RequestQuit w = w\<lparr>m_isQuitting := True\<rparr>"

subsection \<open>Construction\<close>

definition SpawnPlayer :: "Game \<Rightarrow> Game" where
  "SpawnPlayer g = g\<lparr>m_player := Some Player_new\<rparr>"

definition InitPlayer :: "Game \<Rightarrow> Game" where
  "InitPlayer g = g\<lparr>m_player := map_option (\<lambda>p. p\<lparr>m_position := Vec3 (-2) 0 1\<rparr>) (m_player g)\<rparr>"

definition SpawnProps :: "Game \<Rightarrow> Game" where
  "SpawnProps g =
     g\<lparr>m_props := m_props g @
          [Prop_new None, Prop_new None, Prop_new (Some ''Data/Images/TestUV.png''), Prop_new None]\<rparr>"

definition InitProps :: "Game \<Rightarrow> Game" where
  "InitProps g =
     (let ps = m_props g;
          ps = ps[0 := InitializeLocalVertsForCube (ps ! 0)];
          ps = ps[1 := InitializeLocalVertsForCube (ps ! 1)];
          ps = ps[2 := InitializeLocalVertsForSphere (ps ! 2)];
          ps = ps[3 := InitializeLocalVertsForGrid (ps ! 3)];
          ps = ps[0 := (ps ! 0)\<lparr>m_position := Vec3 2 2 0\<rparr>];
          ps = ps[1 := (ps ! 1)\<lparr>m_position := Vec3 (-2) (-2) 0\<rparr>];
          ps = ps[2 := (ps ! 2)\<lparr>m_position := Vec3 10 (-5) 1\<rparr>];
          ps = ps[3 := (ps ! 3)\<lparr>m_position := Vec3_ZERO\<rparr>]
      in g\<lparr>m_props := ps\<rparr>)"

text \<open>The data members after their initialisers and the four set-up calls of \<^verbatim>\<open>Game::Game\<close>.\<close>

definition Game_members_default :: Game where
  "Game_members_default =
     \<lparr>m_player = None, m_props = [], m_gameState = ATTRACT,
      m_originalPlayerPosition = Vec3 (-2) 0 1, m_cameraShakeActive = False\<rparr>"

definition Game_new :: Game where
  "Game_new = InitProps (SpawnProps (InitPlayer (SpawnPlayer Game_members_default)))"

subsection \<open>Running script code\<close>

text \<open>
  None of the functions below has a \<^verbatim>\<open>try\<close> block: an exception raised by the script
  subsystem leaves them, and the statements after the call do not run.
\<close>

definition ExecuteJavaScriptCommand :: "env \<Rightarrow> string \<Rightarrow> world \<Rightarrow> (unit, world) outcome" where
  "ExecuteJavaScriptCommand e command w =
     (case g_scriptSubsystem w of
        None \<Rightarrow>
          Return ()
            (DAEMON_LOG ''LogGame'' Verbosity_Error
               ''(Game::ExecuteJavaScriptCommand)(failed)(g_scriptSubsystem is nullptr!)'' w)
      | Some subsystem \<Rightarrow>
          if \<not> IsInitialized subsystem then
            Return ()
              (DAEMON_LOG ''LogGame'' Verbosity_Error
                 (''(Game::ExecuteJavaScriptCommand) failed| '' @ command
                  @ '' | ScriptSubsystem is not initialized'') w)
          else
            and_then (ExecuteScript e command w)
              (\<lambda>report w1.
                 if script_success report then
                   Return ()
                     (when_do (GetLastResult report \<noteq> [])
                        (DAEMON_LOG ''LogGame'' Verbosity_Log
                           (''Game::ExecuteJavaScriptCommand() result | '' @ GetLastResult report))
                        w1)
                 else
                   Return ()
                     (run_all
                        [DAEMON_LOG ''LogGame'' Verbosity_Error
                           ''Game::ExecuteJavaScriptCommand() failed'',
                         when_do (HasError report)
                           (DAEMON_LOG ''LogGame'' Verbosity_Error
                              (''Game::ExecuteJavaScriptCommand() error | ''
                               @ GetLastError report))]
                        w1)))"

definition ExecuteJavaScriptCommandForDebug ::
  "env \<Rightarrow> string \<Rightarrow> string \<Rightarrow> world \<Rightarrow> (unit, world) outcome" where
  "ExecuteJavaScriptCommandForDebug e command scriptName w =
     (case g_scriptSubsystem w of
        None \<Rightarrow>
          Return ()
            (DAEMON_LOG ''LogGame'' Verbosity_Error
               (''Game::ExecuteJavaScriptCommandForDebug() failed| '' @ command
                @ '' | ScriptSubsystem is nullptr'') w)
      | Some subsystem \<Rightarrow>
          if \<not> IsInitialized subsystem then
            Return ()
              (DAEMON_LOG ''LogGame'' Verbosity_Error
                 (''Game::ExecuteJavaScriptCommandForDebug() failed| '' @ command
                  @ '' | ScriptSubsystem is not initialized'') w)
          else
            and_then (ExecuteRegisteredScript e command scriptName w)
              (\<lambda>report w1.
                 if script_success report then
                   Return ()
                     (when_do (GetLastResult report \<noteq> [])
                        (DAEMON_LOG ''LogGame'' Verbosity_Log
                           (''Game::ExecuteJavaScriptCommandForDebug() result | ''
                            @ GetLastResult report)) w1)
                 else
                   Return ()
                     (run_all
                        [DAEMON_LOG ''LogGame'' Verbosity_Error
                           ''Game::ExecuteJavaScriptCommandForDebug() failed'',
                         when_do (HasError report)
                           (DAEMON_LOG ''LogGame'' Verbosity_Error
                              (''Game::ExecuteJavaScriptCommandForDebug() error | ''
                               @ GetLastError report))]
                        w1)))"

text \<open>The part of a path after its last slash or backslash; the whole path when it has none.\<close>

definition after_last_slash :: "string \<Rightarrow> string" where
  "after_last_slash path = rev (takeWhile (\<lambda>c. c \<noteq> CHR ''/'' \<and> c \<noteq> CHR 0x5C) (rev path))"

definition ExecuteJavaScriptFileForDebug :: "env \<Rightarrow> string \<Rightarrow> world \<Rightarrow> (unit, world) outcome"
  where
  "ExecuteJavaScriptFileForDebug e filename w =
     (case g_scriptSubsystem w of
        None \<Rightarrow>
          Return ()
            (DAEMON_LOG ''LogGame'' Verbosity_Error
               (''Game::ExecuteJavaScriptFileForDebug() failed| '' @ filename
                @ '' | ScriptSubsystem is nullptr'') w)
      | Some subsystem \<Rightarrow>
          if \<not> IsInitialized subsystem then
            Return ()
              (DAEMON_LOG ''LogGame'' Verbosity_Error
                 (''Game::ExecuteJavaScriptFileForDebug() failed| '' @ filename
                  @ '' | ScriptSubsystem is not initialized'') w)
          else
            (case read_file e filename of
               None \<Rightarrow>
                 Return ()
                   (DAEMON_LOG ''LogGame'' Verbosity_Error
                      (''Game::ExecuteJavaScriptFileForDebug() failed to open file: '' @ filename)
                      w)
             | Some scriptContent \<Rightarrow>
                 if scriptContent = [] then
                   Return ()
                     (DAEMON_LOG ''LogGame'' Verbosity_Warning
                        (''Game::ExecuteJavaScriptFileForDebug() file is empty: '' @ filename) w)
                 else
                   (let scriptName = after_last_slash filename;
                        w0 = DAEMON_LOG ''LogGame'' Verbosity_Display
                               (''Game::ExecuteJavaScriptFileForDebug() executing '' @ filename
                                @ '' for Chrome DevTools debugging'') w
                    in and_then (ExecuteRegisteredScript e scriptContent scriptName w0)
                         (\<lambda>report w1.
                            if script_success report then
                              Return ()
                                (when_do (GetLastResult report \<noteq> [])
                                   (DAEMON_LOG ''LogGame'' Verbosity_Log
                                      (''Game::ExecuteJavaScriptFileForDebug() result | ''
                                       @ GetLastResult report)) w1)
                            else
                              Return ()
                                (run_all
                                   [DAEMON_LOG ''LogGame'' Verbosity_Error
                                      ''Game::ExecuteJavaScriptFileForDebug() failed'',
                                    when_do (HasError report)
                                      (DAEMON_LOG ''LogGame'' Verbosity_Error
                                         (''Game::ExecuteJavaScriptFileForDebug() error | ''
                                          @ GetLastError report))]
                                   w1)))))"

text \<open>\<^verbatim>\<open>Game::ExecuteJavaScriptFile\<close> ends the process when the script subsystem is missing.\<close>

definition ExecuteJavaScriptFile :: "env \<Rightarrow> string \<Rightarrow> world \<Rightarrow> (unit, world) outcome" where
  "ExecuteJavaScriptFile e filename w =
     (case g_scriptSubsystem w of
        None \<Rightarrow> Abort ''(Game::ExecuteJavaScriptFile)(g_scriptSubsystem is nullptr!)''
      | Some subsystem \<Rightarrow>
          if \<not> IsInitialized subsystem then
            Abort ''(Game::ExecuteJavaScriptFile)(g_scriptSubsystem is not initialized!)''
          else
            (let w0 = DAEMON_LOG ''LogGame'' Verbosity_Log
                        (''(Game::ExecuteJavaScriptFile)(start)('' @ filename @ '')'') w
             in and_then (ExecuteScriptFile e filename w0)
                  (\<lambda>report w1.
                     if \<not> script_success report then
                       Return ()
                         (run_all
                            [DAEMON_LOG ''LogGame'' Verbosity_Error
                               (''(Game::ExecuteJavaScriptFile)(fail)('' @ filename @ '')''),
                             when_do (HasError report)
                               (DAEMON_LOG ''LogGame'' Verbosity_Error
                                  (''(Game::ExecuteJavaScriptFile)(fail)(error: ''
                                   @ GetLastError report @ '')''))]
                            w1)
                     else
                       Return ()
                         (DAEMON_LOG ''LogGame'' Verbosity_Log
                            (''(Game::ExecuteJavaScriptFile)(end)('' @ filename @ '')'') w1))))"

subsection \<open>The per-frame entry points\<close>

definition script_available :: "world \<Rightarrow> bool" where
  "script_available w =
     (case g_scriptSubsystem w of None \<Rightarrow> False | Some subsystem \<Rightarrow> IsInitialized subsystem)"

text \<open>In both functions the \<^verbatim>\<open>else\<close> branch of the source is commented out.\<close>

definition UpdateJS :: "env \<Rightarrow> world \<Rightarrow> (unit, world) outcome" where
  "UpdateJS e w =
     (if script_available w then
        (let gameDeltaSeconds = gameClock_GetDeltaSeconds e;
             systemDeltaSeconds = systemClock_GetDeltaSeconds e
         in ExecuteJavaScriptCommand e
              (''globalThis.JSEngine.update('' @ to_string gameDeltaSeconds @ '', ''
               @ to_string systemDeltaSeconds @ '');'') w)
      else Return () w)"

definition RenderJS :: "env \<Rightarrow> world \<Rightarrow> (unit, world) outcome" where
  "RenderJS e w =
     (if script_available w then ExecuteJavaScriptCommand e ''globalThis.JSEngine.render();'' w
      else Return () w)"
subsection \<open>Methods the bridge calls\<close>

text \<open>
  In \<^verbatim>\<open>Game::CreateCube\<close> the three rolls are arguments of one constructor call: which
  roll becomes which colour channel follows the order of evaluation.
\<close>

definition CreateCube :: "env \<Rightarrow> Vec3 \<Rightarrow> world \<Rightarrow> world" where
  "CreateCube e position w =
     (let w1 = DAEMON_LOG ''LogScript'' Verbosity_Log
                 (''(Game::CreateCube)(start)(position ('' @ format_fixed 2 (vec_x position)
                  @ '', '' @ format_fixed 2 (vec_y position)
                  @ '', '' @ format_fixed 2 (vec_z position) @ ''))'') w
      in case RollRandomIntInRange e (g_rng w1) 100 255 of
           (first, rng1) \<Rightarrow>
             (case RollRandomIntInRange e rng1 100 255 of
                (second, rng2) \<Rightarrow>
                  (case RollRandomIntInRange e rng2 100 255 of
                     (third, rng3) \<Rightarrow>
                       (let red = (if arguments_right_to_left e then third else first);
                            green = second;
                            blue = (if arguments_right_to_left e then first else third);
                            newCube = (Prop_new None)
                              \<lparr>m_position := position,
                               m_color := Rgba8 (to_uchar red) (to_uchar green) (to_uchar blue) 255\<rparr>;
                            newCube = InitializeLocalVertsForCube newCube;
                            w2 = update_game (\<lambda>g. g\<lparr>m_props := m_props g @ [newCube]\<rparr>)
                                   (w1\<lparr>g_rng := rng3\<rparr>)
                        in DAEMON_LOG ''LogScript'' Verbosity_Log
                             (''(Game::CreateCube)(end)(m_props size: ''
                              @ decimal (length (m_props (g_game w2))) @ '')'') w2))))"

definition MoveProp :: "int \<Rightarrow> Vec3 \<Rightarrow> world \<Rightarrow> world" where
  "MoveProp propIndex newPosition w =
     (if 0 \<le> propIndex \<and> propIndex < int (length (m_props (g_game w))) then
        DAEMON_LOG ''LogScript'' Verbosity_Log
          (''(Game::MoveProp)(end)(prop '' @ to_string_int propIndex @ '' move to position (''
           @ format_fixed 2 (vec_x newPosition) @ '', '' @ format_fixed 2 (vec_y newPosition)
           @ '', '' @ format_fixed 2 (vec_z newPosition) @ ''))'')
          (update_game
             (\<lambda>g. g\<lparr>m_props :=
                     (m_props g)[nat propIndex :=
                        (m_props g ! nat propIndex)\<lparr>m_position := newPosition\<rparr>]\<rparr>) w)
      else
        emit (DebuggerPrintf
                (([CHR 0xE8, CHR 0xAD, CHR 0xA6, CHR 0xE5, CHR 0x91, CHR 0x8A, CHR 0xEF,
                    CHR 0xBC, CHR 0x9A] @ ''JavaScript '' @ [CHR 0xE8, CHR 0xAB, CHR 0x8B,
                    CHR 0xE6, CHR 0xB1, CHR 0x82, CHR 0xE7, CHR 0xA7, CHR 0xBB, CHR 0xE5,
                    CHR 0x8B, CHR 0x95, CHR 0xE7, CHR 0x84, CHR 0xA1, CHR 0xE6, CHR 0x95,
                    CHR 0x88, CHR 0xE7, CHR 0x9A, CHR 0x84, CHR 0xE7, CHR 0x89, CHR 0xA9,
                    CHR 0xE4, CHR 0xBB, CHR 0xB6, CHR 0xE7, CHR 0xB4, CHR 0xA2, CHR 0xE5,
                    CHR 0xBC, CHR 0x95] @ '' '') @ to_string_int propIndex
                 @ ([CHR 0xEF, CHR 0xBC, CHR 0x88, CHR 0xE7, CHR 0xB8, CHR 0xBD, CHR 0xE5,
                     CHR 0x85,
                     CHR 0xB1] @ '' '') @ decimal (length (m_props (g_game w))) @ ('' '' @ [CHR 0xE5, CHR 0x80, CHR 0x8B, CHR 0xE7, CHR 0x89, CHR 0xA9, CHR 0xE4, CHR 0xBB, CHR 0xB6, CHR 0xEF, CHR 0xBC, CHR 0x89, CHR 0x0A]))) w)"

definition GetPlayer :: "world \<Rightarrow> Player option" where
  "GetPlayer w = m_player (g_game w)"

definition MovePlayerCamera :: "Vec3 \<Rightarrow> world \<Rightarrow> world" where
  "MovePlayerCamera offset w =
     (case m_player (g_game w) of
        None \<Rightarrow> w
      | Some player \<Rightarrow>
          (let w1 =
                 (if \<not> m_cameraShakeActive (g_game w) then
                    (let w0 = update_game
                                (\<lambda>g. g\<lparr>m_originalPlayerPosition := m_position player,
                                        m_cameraShakeActive := True\<rparr>) w;
                         origin = m_originalPlayerPosition (g_game w0)
                     in emit (DebuggerPrintf
                                (([CHR 0xE9, CHR 0x96, CHR 0x8B, CHR 0xE5, CHR 0xA7, CHR 0x8B,
                                    CHR 0xE7, CHR 0x9B, CHR 0xB8, CHR 0xE6, CHR 0xA9, CHR 0x9F,
                                    CHR 0xE9, CHR 0x9C, CHR 0x87, CHR 0xE5, CHR 0x8B, CHR 0x95,
                                    CHR 0xEF, CHR 0xBC, CHR 0x8C, CHR 0xE5, CHR 0x8E, CHR 0x9F,
                                    CHR 0xE5, CHR 0xA7, CHR 0x8B, CHR 0xE4, CHR 0xBD, CHR 0x8D,
                                    CHR 0xE7, CHR 0xBD,
                                    CHR 0xAE] @ '': ('') @ format_fixed 3 (vec_x origin)
                                 @ '', '' @ format_fixed 3 (vec_y origin)
                                 @ '', '' @ format_fixed 3 (vec_z origin) @ ('')'' @ [CHR 0x0A]))) w0)
                  else w);
               newPosition = Vec3_add (m_originalPlayerPosition (g_game w1)) offset
           in update_game
                (\<lambda>g. g\<lparr>m_player := Some (player\<lparr>m_position := newPosition\<rparr>)\<rparr>) w1))"

subsection \<open>The native update\<close>

definition Prop_Update :: "float \<Rightarrow> Prop \<Rightarrow> Prop" where
  "Prop_Update deltaSeconds p =
     p\<lparr>m_orientation :=
         \<lparr>m_yawDegrees = m_yawDegrees (m_orientation p)
                          + m_yawDegrees (m_angularVelocity p) * deltaSeconds,
          m_pitchDegrees = m_pitchDegrees (m_orientation p)
                            + m_pitchDegrees (m_angularVelocity p) * deltaSeconds,
          m_rollDegrees = m_rollDegrees (m_orientation p)
                           + m_rollDegrees (m_angularVelocity p) * deltaSeconds\<rparr>\<rparr>"

definition set_rgb :: "8 word \<Rightarrow> Rgba8 \<Rightarrow> Rgba8" where
  "set_rgb c colour = (case colour of Rgba8 r g b a \<Rightarrow> Rgba8 c c c a)"

text \<open>
  \<^verbatim>\<open>Game::UpdateEntities\<close> indexes \<^verbatim>\<open>m_props[0]\<close>, \<^verbatim>\<open>[1]\<close> and \<^verbatim>\<open>[2]\<close> without a
  check; with fewer props the process has no defined behaviour and is taken to end.
\<close>

definition UpdateEntities :: "env \<Rightarrow> float \<Rightarrow> float \<Rightarrow> world \<Rightarrow> (unit, world) outcome" where
  "UpdateEntities e gameDeltaSeconds systemDeltaSeconds w =
     run_steps
       [(\<lambda>w0. case m_player (g_game w0) of
                None \<Rightarrow> Return () w0
              | Some player \<Rightarrow>
                  (case Player_Update e systemDeltaSeconds (IsAttractMode w0) player of
                     (updated, raised) \<Rightarrow>
                       (let w1 = update_game (\<lambda>g. g\<lparr>m_player := Some updated\<rparr>) w0
                        in case raised of None \<Rightarrow> Return () w1 | Some ex \<Rightarrow> Throw ex w1))),
        (\<lambda>w0. let ps = map (Prop_Update gameDeltaSeconds) (m_props (g_game w0))
              in if length ps < 3 then Abort ''m_props index out of range''
                 else
                   (let p0 = ps ! 0;
                        ps = ps[0 := p0\<lparr>m_orientation := (m_orientation p0)
                                \<lparr>m_pitchDegrees :=
                                   m_pitchDegrees (m_orientation p0) + 30 * gameDeltaSeconds,
                                 m_rollDegrees :=
                                   m_rollDegrees (m_orientation p0) + 30 * gameDeltaSeconds\<rparr>\<rparr>];
                        time = gameClock_GetTotalSeconds e;
                        colorValue = (sinf e time + 1) * (1 / 2) * 255;
                        p1 = ps ! 1;
                        ps = ps[1 := p1\<lparr>m_color :=
                                set_rgb (to_uchar (truncate_float colorValue)) (m_color p1)\<rparr>];
                        p2 = ps ! 2;
                        ps = ps[2 := p2\<lparr>m_orientation := (m_orientation p2)
                                \<lparr>m_yawDegrees :=
                                   m_yawDegrees (m_orientation p2) + 45 * gameDeltaSeconds\<rparr>\<rparr>]
                    in Return () (update_game (\<lambda>g. g\<lparr>m_props := ps\<rparr>) w0))),
        engine e ''DebugAddScreenText'',
        engine e ''DebugAddScreenText'',
        engine e ''DebugAddScreenText'',
        engine e ''DebugAddScreenText''] w"

text \<open>A call that dereferences \<^verbatim>\<open>m_player\<close> without a null check.\<close>

definition with_player ::
  "(world \<Rightarrow> (unit, world) outcome) \<Rightarrow> world \<Rightarrow> (unit, world) outcome" where
  "with_player step w =
     (case m_player (g_game w) of
        None \<Rightarrow> Abort ''m_player is null''
      | Some player \<Rightarrow> step w)"

definition UpdateFromKeyBoard :: "env \<Rightarrow> world \<Rightarrow> (unit, world) outcome" where
  "UpdateFromKeyBoard e w =
     (let w1 = (if m_gameState (g_game w) = ATTRACT
                then when_do (WasKeyJustPressed e KEYCODE_ESC) App_RequestQuit w
                else w)
      in if m_gameState (g_game w1) = GAME then
           run_steps
             [when_step (WasKeyJustPressed e KEYCODE_F8) (ValidatePhaseModuleSystem e 1),
              when_step (WasKeyJustPressed e KEYCODE_F9) (ValidatePhaseModuleSystem e 2),
              when_step (WasKeyJustPressed e KEYCODE_M) (ValidatePhaseModuleSystem e 3),
              pure_step (when_do (WasKeyJustPressed e KEYCODE_ESC) (SetGameState ATTRACT)),
              when_step (WasKeyJustPressed e KEYCODE_P) (engine e ''Clock::TogglePause''),
              when_step (WasKeyJustPressed e KEYCODE_O) (engine e ''Clock::StepSingleFrame''),
              when_step (IsKeyDown e KEYCODE_T) (engine e ''Clock::SetTimeScale''),
              when_step (WasKeyJustReleased e KEYCODE_T) (engine e ''Clock::SetTimeScale''),
              when_step (WasKeyJustPressed e NUMCODE_1)
                (with_player (engine e ''DebugAddWorldLine'')),
              when_step (IsKeyDown e NUMCODE_2) (with_player (engine e ''DebugAddWorldPoint'')),
              when_step (WasKeyJustPressed e NUMCODE_3)
                (with_player (engine e ''DebugAddWorldWireSphere'')),
              when_step (WasKeyJustPressed e NUMCODE_4)
                (with_player (engine e ''DebugAddWorldBasis'')),
              when_step (WasKeyJustReleased e NUMCODE_5)
                (with_player (engine e ''DebugAddBillboardText'')),
              when_step (WasKeyJustPressed e NUMCODE_6)
                (with_player (engine e ''DebugAddWorldCylinder'')),
              when_step (WasKeyJustReleased e NUMCODE_7)
                (with_player (engine e ''DebugAddMessage'')),
              with_player (engine e ''DebugAddMessage'')] w1
         else Return () w1)"

definition UpdateFromController :: "env \<Rightarrow> world \<Rightarrow> (unit, world) outcome" where
  "UpdateFromController e w =
     (let w1 = (if m_gameState (g_game w) = ATTRACT
                then run_all
                       [when_do (WasButtonJustPressed e XBOX_BUTTON_BACK) App_RequestQuit,
                        when_do (WasButtonJustPressed e XBOX_BUTTON_START) (SetGameState GAME)] w
                else w)
      in if m_gameState (g_game w1) = GAME then
           run_steps
             [pure_step (when_do (WasButtonJustPressed e XBOX_BUTTON_BACK) (SetGameState ATTRACT)),
              when_step (WasButtonJustPressed e XBOX_BUTTON_B) (engine e ''Clock::TogglePause''),
              when_step (WasButtonJustPressed e XBOX_BUTTON_Y)
                (engine e ''Clock::StepSingleFrame''),
              when_step (WasButtonJustPressed e XBOX_BUTTON_X) (engine e ''Clock::SetTimeScale''),
              when_step (WasButtonJustReleased e XBOX_BUTTON_X) (engine e ''Clock::SetTimeScale'')]
             w1
         else Return () w1)"

definition HandleJavaScriptCommands :: "env \<Rightarrow> world \<Rightarrow> (unit, world) outcome" where
  "HandleJavaScriptCommands e w =
     run_steps
       [when_step (WasKeyJustPressed e KEYCODE_J)
          (ExecuteJavaScriptFile e ''Data/Scripts/test_scripts.js''),
        when_step (IsKeyDown e KEYCODE_CHAR_K)
          (ExecuteJavaScriptCommand e
             ''game.moveProp(0, Math.random() * 10 - 5, 0, Math.random() * 10 - 5);''),
        when_step (WasKeyJustPressed e KEYCODE_CHAR_L)
          (ExecuteJavaScriptCommand e (''debug('' @ [CHR 0x27] @ ''Player Position'' @ [CHR 0x27] @ '');'')),
        when_step (WasKeyJustPressed e VK_F2)
          (ExecuteJavaScriptFileForDebug e ''Data/Scripts/F1_KeyHandler.js''),
        when_step (WasKeyJustPressed e VK_F3)
          (ExecuteJavaScriptCommandForDebug e ''toggleShouldRender()''
             ''Data/Scripts/F1_KeyHandler.js'')] w"

text \<open>\<^verbatim>\<open>Game::HandleConsoleCommands\<close>: the body of its only \<^verbatim>\<open>if\<close> is a comment.\<close>

definition HandleConsoleCommands :: "world \<Rightarrow> world" where
  "HandleConsoleCommands w = w"

definition Game_Update :: "env \<Rightarrow> float \<Rightarrow> float \<Rightarrow> world \<Rightarrow> (unit, world) outcome" where
  "Game_Update e gameDeltaSeconds systemDeltaSeconds w =
     run_steps
       [UpdateEntities e gameDeltaSeconds systemDeltaSeconds,
        UpdateFromKeyBoard e,
        UpdateFromController e,
        HandleJavaScriptCommands e,
        pure_step HandleConsoleCommands] w"

subsection \<open>The native render\<close>

definition Prop_Render :: "env \<Rightarrow> Prop \<Rightarrow> world \<Rightarrow> (unit, world) outcome" where
  "Prop_Render e p w =
     run_steps
       [engine e ''Renderer::SetModelConstants'',
        engine e ''Renderer::SetBlendMode'',
        engine e ''Renderer::SetRasterizerMode'',
        engine e ''Renderer::SetSamplerMode'',
        engine e ''Renderer::SetDepthMode'',
        engine e ''Renderer::BindTexture'',
        engine e ''Renderer::BindShader'',
        engine e ''Renderer::DrawVertexArray''] w"

definition RenderEntities :: "env \<Rightarrow> world \<Rightarrow> (unit, world) outcome" where
  "RenderEntities e w =
     run_steps
       (engine e ''Renderer::SetModelConstants'' # map (Prop_Render e) (m_props (g_game w))) w"

definition RenderAttractMode :: "env \<Rightarrow> world \<Rightarrow> (unit, world) outcome" where
  "RenderAttractMode e w =
     run_steps
       [engine e ''Renderer::SetModelConstants'',
        engine e ''Renderer::SetBlendMode'',
        engine e ''Renderer::SetRasterizerMode'',
        engine e ''Renderer::SetSamplerMode'',
        engine e ''Renderer::SetDepthMode'',
        engine e ''Renderer::BindTexture'',
        engine e ''Renderer::BindShader'',
        engine e ''Renderer::DrawVertexArray''] w"

text \<open>
  \<^verbatim>\<open>Game::Render\<close> starts by dereferencing \<^verbatim>\<open>m_player\<close>.
\<close>

definition Game_Render :: "env \<Rightarrow> world \<Rightarrow> (unit, world) outcome" where
  "Game_Render e w =
     with_player
       (run_steps
          [engine e ''Renderer::BeginCamera'',
           when_step (m_gameState (g_game w) = GAME)
             (run_steps
                [RenderEntities e,
                 engine e ''DebugAddScreenText'',
                 engine e ''DebugAddScreenText'',
                 engine e ''DebugAddScreenText'',
                 engine e ''DebugAddScreenText'',
                 engine e ''DebugAddScreenText'',
                 when_step (g_scriptSubsystem w \<noteq> None)
                   (run_steps
                      [engine e ''DebugAddScreenText'',
                       when_step (scriptSubsystem_HasError e)
                         (engine e ''DebugAddScreenText'')])]),
           engine e ''Renderer::EndCamera'',
           when_step (m_gameState (g_game w) = GAME) (engine e ''DebugRenderWorld''),
           engine e ''Renderer::BeginCamera'',
           when_step (m_gameState (g_game w) = ATTRACT) (RenderAttractMode e),
           engine e ''Renderer::EndCamera'',
           when_step (m_gameState (g_game w) = GAME) (engine e ''DebugRenderScreen'')]) w"
section \<open>GameScriptInterface.cpp\<close>

definition GetAvailableMethods :: "ScriptMethodInfo list" where
  "GetAvailableMethods =
     [ScriptMethodInfo ''appRequestQuit'' ''Request quit to app'' [] ''void'',
      ScriptMethodInfo ''createCube''
        [CHR 0xE5, CHR 0x9C, CHR 0xA8, CHR 0xE6, CHR 0x8C, CHR 0x87, CHR 0xE5, CHR 0xAE,
            CHR 0x9A, CHR 0xE4, CHR 0xBD, CHR 0x8D, CHR 0xE7, CHR 0xBD, CHR 0xAE, CHR 0xE5,
            CHR 0x89, CHR 0xB5, CHR 0xE5, CHR 0xBB, CHR 0xBA, CHR 0xE4, CHR 0xB8, CHR 0x80,
            CHR 0xE5, CHR 0x80, CHR 0x8B, CHR 0xE7, CHR 0xAB, CHR 0x8B, CHR 0xE6, CHR 0x96,
            CHR 0xB9, CHR 0xE9, CHR 0xAB, CHR 0x94]
        [''float'', ''float'', ''float''] ''string'',
      ScriptMethodInfo ''moveProp''
        [CHR 0xE7, CHR 0xA7, CHR 0xBB, CHR 0xE5, CHR 0x8B, CHR 0x95, CHR 0xE6, CHR 0x8C,
            CHR 0x87, CHR 0xE5, CHR 0xAE, CHR 0x9A, CHR 0xE7, CHR 0xB4, CHR 0xA2, CHR 0xE5,
            CHR 0xBC, CHR 0x95, CHR 0xE7, CHR 0x9A, CHR 0x84, CHR 0xE9, CHR 0x81, CHR 0x93,
            CHR 0xE5, CHR 0x85, CHR 0xB7, CHR 0xE5, CHR 0x88, CHR 0xB0, CHR 0xE6, CHR 0x96,
            CHR 0xB0, CHR 0xE4, CHR 0xBD, CHR 0x8D, CHR 0xE7, CHR 0xBD, CHR 0xAE]
        [''int'', ''float'', ''float'', ''float''] ''string'',
      ScriptMethodInfo ''getPlayerPosition''
        [CHR 0xE5, CHR 0x8F, CHR 0x96, CHR 0xE5, CHR 0xBE, CHR 0x97, CHR 0xE7, CHR 0x8E,
            CHR 0xA9, CHR 0xE5, CHR 0xAE, CHR 0xB6, CHR 0xE7, CHR 0x9B, CHR 0xAE, CHR 0xE5,
            CHR 0x89, CHR 0x8D, CHR 0xE4, CHR 0xBD, CHR 0x8D, CHR 0xE7, CHR 0xBD, CHR 0xAE]
        [] ''object'',
      ScriptMethodInfo ''movePlayerCamera''
        [CHR 0xE7, CHR 0xA7, CHR 0xBB, CHR 0xE5, CHR 0x8B, CHR 0x95, CHR 0xE7, CHR 0x8E,
            CHR 0xA9, CHR 0xE5, CHR 0xAE, CHR 0xB6, CHR 0xE7, CHR 0x9B, CHR 0xB8, CHR 0xE6,
            CHR 0xA9, CHR 0x9F, CHR 0xEF, CHR 0xBC, CHR 0x88, CHR 0xE7, CHR 0x94, CHR 0xA8,
            CHR 0xE6, CHR 0x96, CHR 0xBC, CHR 0xE6, CHR 0x99, CHR 0x83, CHR 0xE5, CHR 0x8B,
            CHR 0x95, CHR 0xE6, CHR 0x95, CHR 0x88, CHR 0xE6, CHR 0x9E, CHR 0x9C, CHR 0xEF,
            CHR 0xBC, CHR 0x89]
        [''float'', ''float'', ''float''] ''string'',
      ScriptMethodInfo ''update'' ''JavaScript GameLoop Update'' [''float'', ''float''] ''void'',
      ScriptMethodInfo ''render'' ''JavaScript GameLoop Render'' [] ''void'',
      ScriptMethodInfo ''executeCommand''
        ([CHR 0xE5, CHR 0x9F, CHR 0xB7, CHR 0xE8, CHR 0xA1,
            CHR 0x8C] @ '' JavaScript '' @ [CHR 0xE6, CHR 0x8C, CHR 0x87, CHR 0xE4, CHR 0xBB,
            CHR 0xA4])
        [''string''] ''string'',
      ScriptMethodInfo ''executeFile''
        ([CHR 0xE5, CHR 0x9F, CHR 0xB7, CHR 0xE8, CHR 0xA1,
            CHR 0x8C] @ '' JavaScript '' @ [CHR 0xE6, CHR 0xAA, CHR 0x94, CHR 0xE6, CHR 0xA1,
            CHR 0x88])
        [''string''] ''string'',
      ScriptMethodInfo ''isAttractMode''
        [CHR 0xE6, CHR 0xAA, CHR 0xA2, CHR 0xE6, CHR 0x9F, CHR 0xA5, CHR 0xE9, CHR 0x81,
            CHR 0x8A, CHR 0xE6, CHR 0x88, CHR 0xB2, CHR 0xE6, CHR 0x98, CHR 0xAF, CHR 0xE5,
            CHR 0x90, CHR 0xA6, CHR 0xE8, CHR 0x99, CHR 0x95, CHR 0xE6, CHR 0x96, CHR 0xBC,
            CHR 0xE5, CHR 0x90, CHR 0xB8, CHR 0xE5, CHR 0xBC, CHR 0x95, CHR 0xE6, CHR 0xA8,
            CHR 0xA1, CHR 0xE5, CHR 0xBC, CHR 0x8F]
        [] ''bool'',
      ScriptMethodInfo ''getFileTimestamp''
        [CHR 0xE5, CHR 0x8F, CHR 0x96, CHR 0xE5, CHR 0xBE, CHR 0x97, CHR 0xE6, CHR 0xAA,
            CHR 0x94, CHR 0xE6, CHR 0xA1, CHR 0x88, CHR 0xE7, CHR 0x9A, CHR 0x84, CHR 0xE6,
            CHR 0x9C, CHR 0x80, CHR 0xE5, CHR 0xBE, CHR 0x8C, CHR 0xE4, CHR 0xBF, CHR 0xAE,
            CHR 0xE6, CHR 0x94, CHR 0xB9, CHR 0xE6, CHR 0x99, CHR 0x82, CHR 0xE9, CHR 0x96,
            CHR 0x93, CHR 0xE6, CHR 0x88, CHR 0xB3, CHR 0xE8, CHR 0xA8, CHR 0x98]
        [''string''] ''number'']"

definition GetAvailableProperties :: "string list" where
  "GetAvailableProperties = [''attractMode'', ''gameState'']"

subsection \<open>The method handlers\<close>

type_synonym handler_result = "(ScriptMethodResult, world) outcome"

definition ExecuteAppRequestQuit :: "ScriptArgs \<Rightarrow> world \<Rightarrow> handler_result" where
  "ExecuteAppRequestQuit args w =
     (let result = ValidateArgCount args 0 ''appRequestQuit''
      in if \<not> success result then Return result w
         else try_catch
                (Return (Success AnyEmpty) (App_RequestQuit w))
                (\<lambda>what w'. Return (Error (([CHR 0xE5, CHR 0x89, CHR 0xB5, CHR 0xE5,
                    CHR 0xBB, CHR 0xBA, CHR 0xE7, CHR 0xAB, CHR 0x8B, CHR 0xE6, CHR 0x96,
                    CHR 0xB9, CHR 0xE9, CHR 0xAB, CHR 0x94, CHR 0xE5, CHR 0xA4, CHR 0xB1,
                    CHR 0xE6, CHR 0x95, CHR 0x97] @ '': '') @ what)) w'))"

definition ExecuteCreateCube :: "env \<Rightarrow> ScriptArgs \<Rightarrow> world \<Rightarrow> handler_result" where
  "ExecuteCreateCube e args w =
     (let result = ValidateArgCount args 3 ''createCube''
      in if \<not> success result then Return result w
         else try_catch
                (and_then (extraction (ExtractVec3 args 0) w)
                   (\<lambda>position w1.
                      Return
                        (Success (AnyString
                           (([CHR 0xE7, CHR 0xAB, CHR 0x8B, CHR 0xE6, CHR 0x96, CHR 0xB9,
                               CHR 0xE9, CHR 0xAB, CHR 0x94, CHR 0xE5, CHR 0x89, CHR 0xB5,
                               CHR 0xE5, CHR 0xBB, CHR 0xBA, CHR 0xE6, CHR 0x88, CHR 0x90,
                               CHR 0xE5, CHR 0x8A, CHR 0x9F, CHR 0xEF, CHR 0xBC, CHR 0x8C,
                               CHR 0xE4, CHR 0xBD, CHR 0x8D, CHR 0xE7, CHR 0xBD,
                               CHR 0xAE] @ '': ('') @ to_string (vec_x position) @ '', ''
                            @ to_string (vec_y position) @ '', ''
                            @ to_string (vec_z position) @ '')'')))
                        (CreateCube e position w1)))
                (\<lambda>what w'. Return (Error (([CHR 0xE5, CHR 0x89, CHR 0xB5, CHR 0xE5,
                    CHR 0xBB, CHR 0xBA, CHR 0xE7, CHR 0xAB, CHR 0x8B, CHR 0xE6, CHR 0x96,
                    CHR 0xB9, CHR 0xE9, CHR 0xAB, CHR 0x94, CHR 0xE5, CHR 0xA4, CHR 0xB1,
                    CHR 0xE6, CHR 0x95, CHR 0x97] @ '': '') @ what)) w'))"

definition ExecuteMoveProp :: "ScriptArgs \<Rightarrow> world \<Rightarrow> handler_result" where
  "ExecuteMoveProp args w =
     (let result = ValidateArgCount args 4 ''moveProp''
      in if \<not> success result then Return result w
         else try_catch
                (and_then (extraction (ExtractInt (args ! 0)) w)
                   (\<lambda>propIndex w1.
                      and_then (extraction (ExtractVec3 args 1) w1)
                        (\<lambda>newPosition w2.
                           Return
                             (Success (AnyString
                                (([CHR 0xE9, CHR 0x81, CHR 0x93, CHR 0xE5, CHR 0x85,
                                    CHR 0xB7] @ '' '') @ to_string_int propIndex
                                 @ ('' '' @ [CHR 0xE7, CHR 0xA7, CHR 0xBB, CHR 0xE5, CHR 0x8B,
                                     CHR 0x95, CHR 0xE6, CHR 0x88, CHR 0x90, CHR 0xE5, CHR 0x8A,
                                     CHR 0x9F, CHR 0xEF, CHR 0xBC, CHR 0x8C, CHR 0xE6, CHR 0x96,
                                     CHR 0xB0, CHR 0xE4, CHR 0xBD, CHR 0x8D, CHR 0xE7, CHR 0xBD,
                                     CHR 0xAE] @ '': ('')
                                 @ to_string (vec_x newPosition) @ '', ''
                                 @ to_string (vec_y newPosition) @ '', ''
                                 @ to_string (vec_z newPosition) @ '')'')))
                             (MoveProp propIndex newPosition w2))))
                (\<lambda>what w'. Return (Error (([CHR 0xE7, CHR 0xA7, CHR 0xBB, CHR 0xE5,
                    CHR 0x8B, CHR 0x95, CHR 0xE9, CHR 0x81, CHR 0x93, CHR 0xE5, CHR 0x85,
                    CHR 0xB7, CHR 0xE5, CHR 0xA4, CHR 0xB1, CHR 0xE6, CHR 0x95,
                    CHR 0x97] @ '': '') @ what)) w'))"

definition ExecuteGetPlayerPosition :: "ScriptArgs \<Rightarrow> world \<Rightarrow> handler_result" where
  "ExecuteGetPlayerPosition args w =
     (let result = ValidateArgCount args 0 ''getPlayerPosition''
      in if \<not> success result then Return result w
         else try_catch
                (case GetPlayer w of
                   None \<Rightarrow> Return (Error [CHR 0xE7, CHR 0x8E, CHR 0xA9, CHR 0xE5,
                       CHR 0xAE, CHR 0xB6, CHR 0xE7, CHR 0x89, CHR 0xA9, CHR 0xE4, CHR 0xBB,
                       CHR 0xB6, CHR 0xE4, CHR 0xB8, CHR 0x8D, CHR 0xE5, CHR 0xAD, CHR 0x98,
                       CHR 0xE5, CHR 0x9C, CHR 0xA8]) w
                 | Some player \<Rightarrow>
                     (let position = m_position player;
                          positionStr = ''{ x: '' @ to_string (vec_x position)
                                        @ '', y: '' @ to_string (vec_y position)
                                        @ '', z: '' @ to_string (vec_z position) @ '' }''
                      in Return (Success (AnyString positionStr)) w))
                (\<lambda>what w'. Return (Error (([CHR 0xE5, CHR 0x8F, CHR 0x96, CHR 0xE5,
                    CHR 0xBE, CHR 0x97, CHR 0xE7, CHR 0x8E, CHR 0xA9, CHR 0xE5, CHR 0xAE,
                    CHR 0xB6, CHR 0xE4, CHR 0xBD, CHR 0x8D, CHR 0xE7, CHR 0xBD, CHR 0xAE,
                    CHR 0xE5, CHR 0xA4, CHR 0xB1, CHR 0xE6, CHR 0x95,
                    CHR 0x97] @ '': '') @ what)) w'))"

definition ExecuteMovePlayerCamera :: "ScriptArgs \<Rightarrow> world \<Rightarrow> handler_result" where
  "ExecuteMovePlayerCamera args w =
     (let result = ValidateArgCount args 3 ''movePlayerCamera''
      in if \<not> success result then Return result w
         else try_catch
                (and_then (extraction (ExtractVec3 args 0) w)
                   (\<lambda>offset w1.
                      Return
                        (Success (AnyString
                           (([CHR 0xE7, CHR 0x9B, CHR 0xB8, CHR 0xE6, CHR 0xA9, CHR 0x9F,
                               CHR 0xE4, CHR 0xBD, CHR 0x8D, CHR 0xE7, CHR 0xBD, CHR 0xAE,
                               CHR 0xE5, CHR 0xB7, CHR 0xB2, CHR 0xE7, CHR 0xA7, CHR 0xBB,
                               CHR 0xE5, CHR 0x8B,
                               CHR 0x95] @ '': ('') @ to_string (vec_x offset) @ '', ''
                            @ to_string (vec_y offset) @ '', ''
                            @ to_string (vec_z offset) @ '')'')))
                        (MovePlayerCamera offset w1)))
                (\<lambda>what w'. Return (Error (([CHR 0xE7, CHR 0xA7, CHR 0xBB, CHR 0xE5,
                    CHR 0x8B, CHR 0x95, CHR 0xE7, CHR 0x8E, CHR 0xA9, CHR 0xE5, CHR 0xAE,
                    CHR 0xB6, CHR 0xE7, CHR 0x9B, CHR 0xB8, CHR 0xE6, CHR 0xA9, CHR 0x9F,
                    CHR 0xE5, CHR 0xA4, CHR 0xB1, CHR 0xE6, CHR 0x95,
                    CHR 0x97] @ '': '') @ what)) w'))"

definition ExecuteRender :: "env \<Rightarrow> ScriptArgs \<Rightarrow> world \<Rightarrow> handler_result" where
  "ExecuteRender e args w =
     (let result = ValidateArgCount args 0 ''Render''
      in if \<not> success result then Return result w
         else try_catch
                (and_then (Game_Render e w)
                   (\<lambda>u w1. Return (Success (AnyString ''Render Success'')) w1))
                (\<lambda>what w'. Return (Error (''Render failed: '' @ what)) w'))"

definition ExecuteUpdate :: "env \<Rightarrow> ScriptArgs \<Rightarrow> world \<Rightarrow> handler_result" where
  "ExecuteUpdate e args w =
     (let result = ValidateArgCount args 2 ''Update''
      in if \<not> success result then Return result w
         else try_catch
                (and_then (extraction (ExtractFloat (args ! 0)) w)
                   (\<lambda>gameDeltaSeconds w1.
                      and_then (extraction (ExtractFloat (args ! 1)) w1)
                        (\<lambda>systemDeltaSeconds w2.
                           and_then (Game_Update e gameDeltaSeconds systemDeltaSeconds w2)
                             (\<lambda>u w3. Return (Success (AnyString ''Update Success'')) w3))))
                (\<lambda>what w'. Return (Error (''Update failed: '' @ what)) w'))"

definition ExecuteJavaScriptCommand_handler :: "env \<Rightarrow> ScriptArgs \<Rightarrow> world \<Rightarrow> handler_result"
  where
  "ExecuteJavaScriptCommand_handler e args w =
     (let result = ValidateArgCount args 1 ''executeCommand''
      in if \<not> success result then Return result w
         else try_catch
                (and_then (extraction (ExtractString (args ! 0)) w)
                   (\<lambda>command w1.
                      and_then (ExecuteJavaScriptCommand e command w1)
                        (\<lambda>u w2. Return (Success (AnyString (([CHR 0xE6, CHR 0x8C,
                            CHR 0x87, CHR 0xE4, CHR 0xBB, CHR 0xA4, CHR 0xE5, CHR 0x9F,
                            CHR 0xB7, CHR 0xE8, CHR 0xA1, CHR 0x8C] @ '': '') @ command))) w2)))
                (\<lambda>what w'. Return (Error (([CHR 0xE5, CHR 0x9F, CHR 0xB7, CHR 0xE8,
                    CHR 0xA1, CHR 0x8C] @ '' JavaScript '' @ [CHR 0xE6, CHR 0x8C, CHR 0x87,
                    CHR 0xE4, CHR 0xBB, CHR 0xA4, CHR 0xE5, CHR 0xA4, CHR 0xB1, CHR 0xE6,
                    CHR 0x95, CHR 0x97] @ '': '') @ what)) w'))"

definition ExecuteJavaScriptFile_handler :: "env \<Rightarrow> ScriptArgs \<Rightarrow> world \<Rightarrow> handler_result"
  where
  "ExecuteJavaScriptFile_handler e args w =
     (let result = ValidateArgCount args 1 ''executeFile''
      in if \<not> success result then Return result w
         else try_catch
                (and_then (extraction (ExtractString (args ! 0)) w)
                   (\<lambda>filename w1.
                      and_then (ExecuteJavaScriptFile e filename w1)
                        (\<lambda>u w2. Return (Success (AnyString (([CHR 0xE6, CHR 0xAA,
                            CHR 0x94, CHR 0xE6, CHR 0xA1, CHR 0x88, CHR 0xE5, CHR 0x9F,
                            CHR 0xB7, CHR 0xE8, CHR 0xA1, CHR 0x8C] @ '': '') @ filename))) w2)))
                (\<lambda>what w'. Return (Error (([CHR 0xE5, CHR 0x9F, CHR 0xB7, CHR 0xE8,
                    CHR 0xA1, CHR 0x8C] @ '' JavaScript '' @ [CHR 0xE6, CHR 0xAA, CHR 0x94,
                    CHR 0xE6, CHR 0xA1, CHR 0x88, CHR 0xE5, CHR 0xA4, CHR 0xB1, CHR 0xE6,
                    CHR 0x95, CHR 0x97] @ '': '') @ what)) w'))"

definition ExecuteIsAttractMode :: "ScriptArgs \<Rightarrow> world \<Rightarrow> handler_result" where
  "ExecuteIsAttractMode args w =
     (let result = ValidateArgCount args 0 ''isAttractMode''
      in if \<not> success result then Return result w
         else try_catch
                (let isAttract = IsAttractMode w in Return (Success (AnyBool isAttract)) w)
                (\<lambda>what w'. Return (Error (([CHR 0xE6, CHR 0xAA, CHR 0xA2, CHR 0xE6,
                    CHR 0x9F, CHR 0xA5, CHR 0xE5, CHR 0x90, CHR 0xB8, CHR 0xE5, CHR 0xBC,
                    CHR 0x95, CHR 0xE6, CHR 0xA8, CHR 0xA1, CHR 0xE5, CHR 0xBC, CHR 0x8F,
                    CHR 0xE5, CHR 0xA4, CHR 0xB1, CHR 0xE6, CHR 0x95,
                    CHR 0x97] @ '': '') @ what)) w'))"

subsection \<open>Dispatch and properties\<close>

definition CallMethod :: "env \<Rightarrow> string \<Rightarrow> ScriptArgs \<Rightarrow> world \<Rightarrow> handler_result" where
  "CallMethod e methodName args w =
     try_catch
       (if methodName = ''appRequestQuit'' then ExecuteAppRequestQuit args w
        else if methodName = ''createCube'' then ExecuteCreateCube e args w
        else if methodName = ''moveProp'' then ExecuteMoveProp args w
        else if methodName = ''getPlayerPosition'' then ExecuteGetPlayerPosition args w
        else if methodName = ''movePlayerCamera'' then ExecuteMovePlayerCamera args w
        else if methodName = ''update'' then ExecuteUpdate e args w
        else if methodName = ''render'' then ExecuteRender e args w
        else if methodName = ''executeCommand'' then ExecuteJavaScriptCommand_handler e args w
        else if methodName = ''executeFile'' then ExecuteJavaScriptFile_handler e args w
        else if methodName = ''isAttractMode'' then ExecuteIsAttractMode args w
        else Return (Error (([CHR 0xE6, CHR 0x9C, CHR 0xAA, CHR 0xE7, CHR 0x9F, CHR 0xA5,
            CHR 0xE7, CHR 0x9A, CHR 0x84, CHR 0xE6, CHR 0x96, CHR 0xB9, CHR 0xE6, CHR 0xB3,
            CHR 0x95] @ '': '') @ methodName)) w)
       (\<lambda>what w'. Return (Error (([CHR 0xE6, CHR 0x96, CHR 0xB9, CHR 0xE6, CHR 0xB3,
           CHR 0x95, CHR 0xE5, CHR 0x9F, CHR 0xB7, CHR 0xE8, CHR 0xA1, CHR 0x8C, CHR 0xE6,
           CHR 0x99, CHR 0x82, CHR 0xE7, CHR 0x99, CHR 0xBC, CHR 0xE7, CHR 0x94, CHR 0x9F,
           CHR 0xE4, CHR 0xBE, CHR 0x8B, CHR 0xE5, CHR 0xA4, CHR 0x96] @ '': '') @ what)) w')"

text \<open>
  In \<^verbatim>\<open>GetProperty\<close> the \<^verbatim>\<open>default\<close> case of the switch (the string \<open>UNKNOWN\<close>) is not
  reached by either value of the enumeration.
\<close>

definition GetProperty :: "string \<Rightarrow> world \<Rightarrow> any" where
  "GetProperty propertyName w =
     (if propertyName = ''attractMode'' then AnyBool (IsAttractMode w)
      else if propertyName = ''gameState'' then
        (case GetGameState w of
           ATTRACT \<Rightarrow> AnyString ''ATTRACT''
         | GAME \<Rightarrow> AnyString ''GAME'')
      else AnyEmpty)"

definition SetProperty :: "string \<Rightarrow> any \<Rightarrow> world \<Rightarrow> (bool, world) outcome" where
  "SetProperty propertyName v w =
     (if propertyName = ''gameState'' then
        try_catch
          (and_then (extraction (ExtractString v) w)
             (\<lambda>stateStr w1.
                if stateStr = ''ATTRACT'' \<or> stateStr = ''attract'' \<or> stateStr = ''0'' then
                  Return True (SetGameState ATTRACT w1)
                else if stateStr = ''GAME'' \<or> stateStr = ''game'' \<or> stateStr = ''1'' then
                  Return True (SetGameState GAME w1)
                else Return False w1))
          (\<lambda>what w'. Return False w')
      else Return False w)"

subsection \<open>An idle frame after start-up\<close>

text \<open>
  A concrete environment and state on which the functions above can be run. No key or
  button is down, the clocks report a sixtieth of a second, script code runs without effect
  and without error, the player does not move, and no engine call raises. The state has
  the data members as the constructor of \<^verbatim>\<open>Game\<close> sets them, a script subsystem that is
  initialised or not, and an empty record of engine calls.
\<close>

definition quiet_report :: ScriptReport where
  "quiet_report =
     \<lparr>script_success = True, GetLastResult = '''', HasError = False, GetLastError = ''''\<rparr>"

definition idle_env :: env where
  "idle_env =
     \<lparr>gameClock_GetDeltaSeconds = 1 / 60,
      gameClock_GetTotalSeconds = 0,
      systemClock_GetDeltaSeconds = 1 / 60,
      sinf = (\<lambda>t. 0),
      WasKeyJustPressed = (\<lambda>k. False),
      WasKeyJustReleased = (\<lambda>k. False),
      IsKeyDown = (\<lambda>k. False),
      WasButtonJustPressed = (\<lambda>b. False),
      WasButtonJustReleased = (\<lambda>b. False),
      RollRandomIntInRange = (\<lambda>s lo hi. (lo, Suc s)),
      arguments_right_to_left = True,
      ExecuteScript = (\<lambda>source w. Return quiet_report w),
      ExecuteScriptFile = (\<lambda>path w. Return quiet_report w),
      ExecuteRegisteredScript = (\<lambda>source scriptName w. Return quiet_report w),
      ValidatePhaseModuleSystem = (\<lambda>n w. Return () w),
      Player_Update = (\<lambda>dt attract p. (p, None)),
      engine_throws = (\<lambda>callee w. None),
      scriptSubsystem_HasError = False,
      read_file = (\<lambda>path. None)\<rparr>"

definition started_world :: "bool \<Rightarrow> world" where
  "started_world ready =
     \<lparr>g_game = Game_new, m_isQuitting = False,
      g_scriptSubsystem = Some \<lparr>IsInitialized = ready\<rparr>, g_rng = 0, ext_calls = []\<rparr>"

text \<open>
  The same environment with a script subsystem whose \<^verbatim>\<open>ExecuteScript\<close> raises the given
  exception, leaving the state as it found it.
\<close>

definition raising_env :: "exn \<Rightarrow> env" where
  "raising_env ex = idle_env\<lparr>ExecuteScript := (\<lambda>source w. Throw ex w)\<rparr>"

text \<open>The idle environment with a renderer, debug renderer and clock that raise it.\<close>

definition engine_raising_env :: "exn \<Rightarrow> env" where
  "engine_raising_env ex = idle_env\<lparr>engine_throws := (\<lambda>callee w. Some ex)\<rparr>"

section \<open>Notions used in the statements\<close>

subsection \<open>Comparison without regard to case\<close>

text \<open>
  Equality of two strings under case-insensitive comparison, as the specification words
  the write rule of \<^verbatim>\<open>gameState\<close>: ASCII letters are compared by their upper-case form.
  The code has no such comparison; this definition only serves to state that rule.
\<close>

definition to_upper :: "char \<Rightarrow> char" where
  "to_upper c =
     (case map_of (zip ''abcdefghijklmnopqrstuvwxyz'' ''ABCDEFGHIJKLMNOPQRSTUVWXYZ'') c of
        None \<Rightarrow> c
      | Some u \<Rightarrow> u)"

definition equals_ignoring_case :: "string \<Rightarrow> string \<Rightarrow> bool" where
  "equals_ignoring_case a b = (map to_upper a = map to_upper b)"

subsection \<open>The origin of a camera shake\<close>

text \<open>
  The position \<^verbatim>\<open>Game::MovePlayerCamera\<close> adds its offset to: the latched position when
  the latch is set, the player's current position when it is not.
\<close>

definition shake_origin :: "Game \<Rightarrow> Player \<Rightarrow> Vec3" where
  "shake_origin g player =
     (if m_cameraShakeActive g then m_originalPlayerPosition g else m_position player)"

subsection \<open>Ways a call can end\<close>

text \<open>The call leaves by an exception.\<close>

fun throws :: "('a, 's) outcome \<Rightarrow> bool" where
  "throws (Throw ex s) = True"
| "throws (Return v s) = False"
| "throws (Abort t) = False"

text \<open>
  The call returns, ends the process, or throws something that a handler for
  \<^verbatim>\<open>std::exception\<close> catches.
\<close>

fun throws_at_most_std :: "('a, 's) outcome \<Rightarrow> bool" where
  "throws_at_most_std (Throw OtherException s) = False"
| "throws_at_most_std (Throw (StdException what) s) = True"
| "throws_at_most_std (Return v s) = True"
| "throws_at_most_std (Abort t) = True"

section \<open>Basic facts\<close>

subsection \<open>Outcomes\<close>

lemma and_then_simps [simp]:
  "and_then (Return v s) f = f v s"
  "and_then (Throw ex s) f = Throw ex s"
  "and_then (Abort t) f = Abort t"
  by (simp_all add: and_then_def)

lemma try_catch_simps [simp]:
  "try_catch (Return v s) h = Return v s"
  "try_catch (Throw (StdException what) s) h = h what s"
  "try_catch (Throw OtherException s) h = Throw OtherException s"
  "try_catch (Abort t) h = Abort t"
  by (simp_all add: try_catch_def)

lemma extraction_simps [simp]:
  "extraction (Inl ex) s = Throw ex s"
  "extraction (Inr v) s = Return v s"
  by (simp_all add: extraction_def)

lemma Return_at_most_std [simp]: "throws_at_most_std (Return v s)"
  by simp

lemma throws_at_most_std_Throw: "throws_at_most_std (Throw ex s) = (ex \<noteq> OtherException)"
  by (cases ex) simp_all

lemma not_throws_at_most_std: "\<not> throws m \<Longrightarrow> throws_at_most_std m"
  by (cases m) simp_all

lemma and_then_at_most_std:
  "throws_at_most_std m \<Longrightarrow> (\<And>v s. throws_at_most_std (f v s)) \<Longrightarrow>
   throws_at_most_std (and_then m f)"
  by (cases m rule: throws_at_most_std.cases) auto

lemma try_catch_not_throws:
  "throws_at_most_std m \<Longrightarrow> (\<And>what s. \<not> throws (h what s)) \<Longrightarrow> \<not> throws (try_catch m h)"
  by (cases m rule: throws_at_most_std.cases) simp_all

lemma try_catch_Throw:
  assumes "try_catch m h = Throw ex s" and "\<And>what t. \<not> throws (h what t)"
  shows "ex = OtherException \<and> m = Throw OtherException s"
proof (cases m rule: throws_at_most_std.cases)
  case (2 what t)
  with assms(1) have "h what t = Throw ex s" by simp
  with assms(2) [of what t] show ?thesis by simp
qed (use assms(1) in simp_all)

lemma run_steps_at_most_std:
  "(\<And>step t. step \<in> set steps \<Longrightarrow> throws_at_most_std (step t)) \<Longrightarrow>
   throws_at_most_std (run_steps steps s)"
proof (induction steps arbitrary: s)
  case Nil
  show ?case by simp
next
  case (Cons step steps)
  have "throws_at_most_std (step s)"
    by (rule Cons.prems) simp
  moreover have "\<And>t. throws_at_most_std (run_steps steps t)"
    by (rule Cons.IH) (simp add: Cons.prems)
  ultimately show ?case
    by (simp add: and_then_at_most_std)
qed

lemma pure_step_at_most_std [simp]: "throws_at_most_std (pure_step f s)"
  by (simp add: pure_step_def)

lemma when_step_at_most_std [simp]:
  "throws_at_most_std (when_step c step s) = (c \<longrightarrow> throws_at_most_std (step s))"
  by (simp add: when_step_def)

lemma when_step_simps [simp]:
  "when_step True step s = step s"
  "when_step False step s = Return () s"
  by (simp_all add: when_step_def)

lemma pure_step_simp [simp]: "pure_step f s = Return () (f s)"
  by (simp add: pure_step_def)

lemma run_all_simps [simp]:
  "run_all [] s = s"
  "run_all (step # steps) s = run_all steps (step s)"
  by (simp_all add: run_all_def)

lemma when_do_simps [simp]:
  "when_do True step s = step s"
  "when_do False step s = s"
  by (simp_all add: when_do_def)

subsection \<open>Number formatting\<close>

lemma decimal_digit: "n < 10 \<Longrightarrow> decimal n = [digit_char n]"
  by (subst decimal.simps) simp

lemma decimal_small: "decimal 4 = ''4''" "decimal 99 = ''99''"
  by (simp_all add: decimal.simps digit_char_def)

lemma round_half_even_of_int: "round_half_even (of_int k) = k"
  by (simp add: round_half_even_def)

lemma zero_pad_six: "zero_pad 6 ''0'' = ''000000''"
  by (simp add: zero_pad_def eval_nat_numeral)

lemma to_string_of_nat: "to_string (of_nat k) = decimal k @ ''.000000''"
proof -
  have "\<bar>(of_nat k :: rat)\<bar> * 10 ^ 6 = of_int (int k * 10 ^ 6)"
    by simp
  then have "nat (round_half_even (\<bar>(of_nat k :: rat)\<bar> * 10 ^ 6)) = k * 10 ^ 6"
    by (simp only: round_half_even_of_int) (simp add: nat_mult_distrib nat_power_eq)
  then show ?thesis
    unfolding to_string_def format_fixed_def Let_def
    by (simp add: decimal_digit digit_char_def zero_pad_six)
qed

lemma to_string_small:
  "to_string 1 = ''1.000000''" "to_string 2 = ''2.000000''" "to_string 3 = ''3.000000''"
  using to_string_of_nat [of 1] to_string_of_nat [of 2] to_string_of_nat [of 3]
  by (simp_all add: decimal_digit digit_char_def)

subsection \<open>Argument extraction\<close>

lemma ValidateArgCount_ok [simp]:
  "length args = n \<Longrightarrow> ValidateArgCount args n label = Success AnyEmpty"
  by (simp add: ValidateArgCount_def)

lemma ValidateArgCount_mismatch:
  "length args \<noteq> n \<Longrightarrow>
   ValidateArgCount args n label =
     Error (label @ '' expects '' @ decimal n @ '' arguments, got '' @ decimal (length args))"
  by (simp add: ValidateArgCount_def)

lemma ExtractInt_simps [simp]:
  "ExtractInt (AnyInt i) = Inr i"
  "ExtractInt (AnyFloat f) = Inr (truncate_float f)"
  by (simp_all add: ExtractInt_def)

lemma ExtractFloat_simps [simp]:
  "ExtractFloat (AnyFloat f) = Inr f"
  "ExtractFloat (AnyInt i) = Inr (of_int i)"
  by (simp_all add: ExtractFloat_def)

lemma ExtractString_AnyString [simp]: "ExtractString (AnyString s) = Inr s"
  by (simp add: ExtractString_def)

lemma ExtractString_other:
  "(\<forall>s. v \<noteq> AnyString s) \<Longrightarrow>
   ExtractString v = Inl (StdException ''ExtractString: value is not a string'')"
  by (cases v) (simp_all add: ExtractString_def)

lemma ExtractVec3_three_floats [simp]:
  "ExtractVec3 [AnyFloat a, AnyFloat b, AnyFloat c] 0 = Inr (Vec3 a b c)"
  by (simp add: ExtractVec3_def)

lemma ExtractVec3_floats_after_index [simp]:
  "ExtractVec3 [v, AnyFloat a, AnyFloat b, AnyFloat c] (Suc 0) = Inr (Vec3 a b c)"
  by (simp add: ExtractVec3_def)

lemma ExtractInt_Inl: "ExtractInt v = Inl ex \<Longrightarrow> \<exists>what. ex = StdException what"
  by (cases v) (auto simp add: ExtractInt_def)

lemma ExtractFloat_Inl: "ExtractFloat v = Inl ex \<Longrightarrow> \<exists>what. ex = StdException what"
  by (cases v) (auto simp add: ExtractFloat_def)

lemma ExtractString_Inl: "ExtractString v = Inl ex \<Longrightarrow> \<exists>what. ex = StdException what"
  by (cases v) (auto simp add: ExtractString_def)

lemma ExtractVec3_Inl: "ExtractVec3 args i = Inl ex \<Longrightarrow> \<exists>what. ex = StdException what"
  by (auto simp add: ExtractVec3_def split: if_splits sum.splits dest: ExtractFloat_Inl)

lemma extraction_at_most_std:
  "throws_at_most_std (extraction (ExtractInt v) s)"
  "throws_at_most_std (extraction (ExtractFloat v) s)"
  "throws_at_most_std (extraction (ExtractString v) s)"
  "throws_at_most_std (extraction (ExtractVec3 args i) s)"
proof -
  show "throws_at_most_std (extraction (ExtractInt v) s)"
    by (cases "ExtractInt v") (auto dest: ExtractInt_Inl)
  show "throws_at_most_std (extraction (ExtractFloat v) s)"
    by (cases "ExtractFloat v") (auto dest: ExtractFloat_Inl)
  show "throws_at_most_std (extraction (ExtractString v) s)"
    by (cases "ExtractString v") (auto dest: ExtractString_Inl)
  show "throws_at_most_std (extraction (ExtractVec3 args i) s)"
    by (cases "ExtractVec3 args i") (auto dest: ExtractVec3_Inl)
qed

subsection \<open>Steps on the state\<close>

lemma g_game_emit [simp]: "g_game (emit c w) = g_game w"
  by (simp add: emit_def)

lemma ext_calls_emit [simp]: "ext_calls (emit c w) = ext_calls w @ [c]"
  by (simp add: emit_def)

lemma g_game_update_game [simp]: "g_game (update_game f w) = f (g_game w)"
  by (simp add: update_game_def)

lemma ext_calls_update_game [simp]: "ext_calls (update_game f w) = ext_calls w"
  by (simp add: update_game_def)

lemma engine_at_most_std:
  "engine_throws e callee w \<noteq> Some OtherException \<Longrightarrow> throws_at_most_std (engine e callee w)"
proof (cases "engine_throws e callee w")
  case None
  then show ?thesis by (simp add: engine_def)
next
  case (Some ex)
  assume "engine_throws e callee w \<noteq> Some OtherException"
  with Some show ?thesis by (cases ex) (simp_all add: engine_def)
qed

lemma with_player_at_most_std:
  "(\<And>t. throws_at_most_std (step t)) \<Longrightarrow> throws_at_most_std (with_player step w)"
  by (simp add: with_player_def split: option.splits)

subsection \<open>The idle frame\<close>

lemma started_world_props:
  "length (m_props (g_game (started_world ready))) = 4"
  by (simp add: started_world_def Game_new_def InitProps_def SpawnProps_def InitPlayer_def
      SpawnPlayer_def Game_members_default_def Let_def)

lemma started_world_player:
  "m_player (g_game (started_world ready)) = Some (Player_new\<lparr>m_position := Vec3 (-2) 0 1\<rparr>)"
  by (simp add: started_world_def Game_new_def InitProps_def SpawnProps_def InitPlayer_def
      SpawnPlayer_def Game_members_default_def Let_def)

lemma started_world_latch:
  "\<not> m_cameraShakeActive (g_game (started_world ready))"
  by (simp add: started_world_def Game_new_def InitProps_def SpawnProps_def InitPlayer_def
      SpawnPlayer_def Game_members_default_def Let_def)

lemma started_world_fields:
  "g_scriptSubsystem (started_world ready) = Some \<lparr>IsInitialized = ready\<rparr>"
  "ext_calls (started_world ready) = []"
  "m_gameState (g_game (started_world ready)) = ATTRACT"
  by (simp_all add: started_world_def Game_new_def InitProps_def SpawnProps_def InitPlayer_def
      SpawnPlayer_def Game_members_default_def Let_def)

lemma script_available_started [simp]:
  "script_available (started_world ready) = ready"
  by (simp add: script_available_def started_world_fields)

lemma idle_env_fields [simp]:
  "WasKeyJustPressed idle_env k = False"
  "WasKeyJustReleased idle_env k = False"
  "IsKeyDown idle_env k = False"
  "WasButtonJustPressed idle_env b = False"
  "WasButtonJustReleased idle_env b = False"
  "gameClock_GetDeltaSeconds idle_env = 1 / 60"
  "systemClock_GetDeltaSeconds idle_env = 1 / 60"
  "scriptSubsystem_HasError idle_env = False"
  "Player_Update idle_env dt attract player = (player, None)"
  "engine_throws idle_env callee w = None"
  "ExecuteScript idle_env source w = Return quiet_report w"
  by (simp_all add: idle_env_def)

lemma engine_idle [simp]: "engine idle_env callee w = Return () (emit (EngineCall callee) w)"
  by (simp add: engine_def)

lemma raising_env_fields [simp]:
  "ExecuteScript (raising_env ex) source w = Throw ex w"
  "ExecuteScriptFile (raising_env ex) path w = Return quiet_report w"
  "ExecuteRegisteredScript (raising_env ex) source scriptName w = Return quiet_report w"
  "ValidatePhaseModuleSystem (raising_env ex) n w = Return () w"
  "Player_Update (raising_env ex) dt attract player = (player, None)"
  "engine_throws (raising_env ex) callee w = None"
  by (simp_all add: raising_env_def idle_env_def)

subsection \<open>Methods of the game\<close>

lemma CreateCube_props:
  "\<exists>cube. m_props (g_game (CreateCube e position w)) = m_props (g_game w) @ [cube]
          \<and> m_position cube = position"
  by (simp add: CreateCube_def Let_def DAEMON_LOG_def emit_def update_game_def
      InitializeLocalVertsForCube_def split: prod.splits)

lemma MoveProp_invalid_index:
  "propIndex < 0 \<or> int (length (m_props (g_game w))) \<le> propIndex \<Longrightarrow>
   MoveProp propIndex newPosition w =
     emit (DebuggerPrintf
             (([CHR 0xE8, CHR 0xAD, CHR 0xA6, CHR 0xE5, CHR 0x91, CHR 0x8A, CHR 0xEF, CHR 0xBC,
                 CHR 0x9A] @ ''JavaScript '' @ [CHR 0xE8, CHR 0xAB, CHR 0x8B, CHR 0xE6,
                 CHR 0xB1, CHR 0x82, CHR 0xE7, CHR 0xA7, CHR 0xBB, CHR 0xE5, CHR 0x8B, CHR 0x95,
                 CHR 0xE7, CHR 0x84, CHR 0xA1, CHR 0xE6, CHR 0x95, CHR 0x88, CHR 0xE7, CHR 0x9A,
                 CHR 0x84, CHR 0xE7, CHR 0x89, CHR 0xA9, CHR 0xE4, CHR 0xBB, CHR 0xB6, CHR 0xE7,
                 CHR 0xB4, CHR 0xA2, CHR 0xE5, CHR 0xBC,
                 CHR 0x95] @ '' '') @ to_string_int propIndex
              @ ([CHR 0xEF, CHR 0xBC, CHR 0x88, CHR 0xE7, CHR 0xB8, CHR 0xBD, CHR 0xE5,
                  CHR 0x85,
                  CHR 0xB1] @ '' '') @ decimal (length (m_props (g_game w))) @ ('' '' @ [CHR 0xE5, CHR 0x80, CHR 0x8B, CHR 0xE7, CHR 0x89, CHR 0xA9, CHR 0xE4, CHR 0xBB, CHR 0xB6, CHR 0xEF, CHR 0xBC, CHR 0x89, CHR 0x0A]))) w"
  by (auto simp add: MoveProp_def)

lemma MovePlayerCamera_game:
  "m_player (g_game w) = Some player \<Longrightarrow>
   g_game (MovePlayerCamera offset w) =
     (g_game w)
       \<lparr>m_player := Some (player\<lparr>m_position := Vec3_add (shake_origin (g_game w) player) offset\<rparr>),
        m_originalPlayerPosition := shake_origin (g_game w) player,
        m_cameraShakeActive := True\<rparr>"
  by (simp add: MovePlayerCamera_def shake_origin_def Let_def)

lemma MovePlayerCamera_twice:
  assumes "m_player (g_game w) = Some player"
  shows "g_game (MovePlayerCamera b (MovePlayerCamera a w)) = g_game (MovePlayerCamera b w)"
proof -
  let ?origin = "shake_origin (g_game w) player"
  let ?moved = "player\<lparr>m_position := Vec3_add ?origin a\<rparr>"
  have first: "g_game (MovePlayerCamera a w) =
      (g_game w)\<lparr>m_player := Some ?moved, m_originalPlayerPosition := ?origin,
                 m_cameraShakeActive := True\<rparr>"
    using assms by (rule MovePlayerCamera_game)
  then have "m_player (g_game (MovePlayerCamera a w)) = Some ?moved"
    by simp
  from MovePlayerCamera_game [OF this, of b]
  have "g_game (MovePlayerCamera b (MovePlayerCamera a w)) =
      (g_game w)\<lparr>m_player := Some (player\<lparr>m_position := Vec3_add ?origin b\<rparr>),
                 m_originalPlayerPosition := ?origin, m_cameraShakeActive := True\<rparr>"
    by (simp add: first shake_origin_def)
  also have "\<dots> = g_game (MovePlayerCamera b w)"
    using MovePlayerCamera_game [OF assms, of b] by simp
  finally show ?thesis .
qed

lemma MovePlayerCamera_keeps_player:
  "m_player (g_game w) = Some player \<Longrightarrow>
   \<exists>moved. m_player (g_game (MovePlayerCamera offset w)) = Some moved"
  by (simp add: MovePlayerCamera_game)

lemma MovePlayerCamera_sequence:
  "m_player (g_game w) = Some player \<Longrightarrow>
   g_game (MovePlayerCamera b (fold MovePlayerCamera offsets w)) = g_game (MovePlayerCamera b w)"
proof (induction offsets arbitrary: w player rule: rev_induct)
  case Nil
  then show ?case by simp
next
  case (snoc a offsets)
  from snoc.prems have "\<exists>p. m_player (g_game (fold MovePlayerCamera offsets w)) = Some p"
  proof (induction offsets arbitrary: w player)
    case Nil
    then show ?case by simp
  next
    case (Cons c offsets)
    from MovePlayerCamera_keeps_player [OF Cons.prems, of c]
    obtain moved where "m_player (g_game (MovePlayerCamera c w)) = Some moved" ..
    from Cons.IH [OF this] show ?case by simp
  qed
  then obtain p where p: "m_player (g_game (fold MovePlayerCamera offsets w)) = Some p" ..
  have "g_game (MovePlayerCamera b (fold MovePlayerCamera (offsets @ [a]) w))
        = g_game (MovePlayerCamera b (MovePlayerCamera a (fold MovePlayerCamera offsets w)))"
    by simp
  also have "\<dots> = g_game (MovePlayerCamera b (fold MovePlayerCamera offsets w))"
    using p by (rule MovePlayerCamera_twice)
  also have "\<dots> = g_game (MovePlayerCamera b w)"
    using snoc.prems by (rule snoc.IH)
  finally show ?case .
qed

lemma script_calls_at_most_std:
  assumes "\<And>source t. throws_at_most_std (ExecuteScript e source t)"
    and "\<And>path t. throws_at_most_std (ExecuteScriptFile e path t)"
    and "\<And>source name t. throws_at_most_std (ExecuteRegisteredScript e source name t)"
  shows "throws_at_most_std (ExecuteJavaScriptCommand e command w)"
    and "throws_at_most_std (ExecuteJavaScriptCommandForDebug e command scriptName w)"
    and "throws_at_most_std (ExecuteJavaScriptFileForDebug e filename w)"
    and "throws_at_most_std (ExecuteJavaScriptFile e filename w)"
  by (auto simp add: ExecuteJavaScriptCommand_def ExecuteJavaScriptCommandForDebug_def
      ExecuteJavaScriptFileForDebug_def ExecuteJavaScriptFile_def Let_def assms
      intro!: and_then_at_most_std split: option.splits)

lemma UpdateEntities_at_most_std:
  assumes "\<And>dt attract player. snd (Player_Update e dt attract player) \<noteq> Some OtherException"
    and "\<And>callee t. engine_throws e callee t \<noteq> Some OtherException"
  shows "throws_at_most_std (UpdateEntities e gdt sdt w)"
proof -
  have raised: "raised \<noteq> Some OtherException"
    if "Player_Update e dt attract player = (updated, raised)"
    for dt attract player updated raised
    using assms(1) [of dt attract player] that by simp
  show ?thesis
    unfolding UpdateEntities_def run_steps.simps
    apply (intro and_then_at_most_std)
    subgoal
      by (auto simp add: Let_def throws_at_most_std_Throw split: option.splits prod.splits
          dest: raised)
    subgoal by (simp add: Let_def)
    by (simp_all add: assms(2) engine_at_most_std)
qed

lemma UpdateFromKeyBoard_at_most_std:
  assumes "\<And>n t. throws_at_most_std (ValidatePhaseModuleSystem e n t)"
    and "\<And>callee t. engine_throws e callee t \<noteq> Some OtherException"
  shows "throws_at_most_std (UpdateFromKeyBoard e w)"
proof -
  have "throws_at_most_std (run_steps steps t)"
    if "\<forall>step \<in> set steps. \<forall>u. throws_at_most_std (step u)" for steps and t :: world
    using that by (intro run_steps_at_most_std) blast
  then show ?thesis
    unfolding UpdateFromKeyBoard_def Let_def
    by (simp add: assms engine_at_most_std with_player_at_most_std del: run_steps.simps)
qed

lemma UpdateFromController_at_most_std:
  assumes "\<And>callee t. engine_throws e callee t \<noteq> Some OtherException"
  shows "throws_at_most_std (UpdateFromController e w)"
proof -
  have "throws_at_most_std (run_steps steps t)"
    if "\<forall>step \<in> set steps. \<forall>u. throws_at_most_std (step u)" for steps and t :: world
    using that by (intro run_steps_at_most_std) blast
  then show ?thesis
    unfolding UpdateFromController_def Let_def
    by (simp add: assms engine_at_most_std del: run_steps.simps run_all_simps)
qed

lemma HandleJavaScriptCommands_at_most_std:
  assumes "\<And>source t. throws_at_most_std (ExecuteScript e source t)"
    and "\<And>path t. throws_at_most_std (ExecuteScriptFile e path t)"
    and "\<And>source name t. throws_at_most_std (ExecuteRegisteredScript e source name t)"
  shows "throws_at_most_std (HandleJavaScriptCommands e w)"
  unfolding HandleJavaScriptCommands_def
  by (rule run_steps_at_most_std) (auto simp add: script_calls_at_most_std [OF assms])

lemma Game_Update_at_most_std:
  assumes "\<And>source t. throws_at_most_std (ExecuteScript e source t)"
    and "\<And>path t. throws_at_most_std (ExecuteScriptFile e path t)"
    and "\<And>source name t. throws_at_most_std (ExecuteRegisteredScript e source name t)"
    and "\<And>n t. throws_at_most_std (ValidatePhaseModuleSystem e n t)"
    and "\<And>dt attract player. snd (Player_Update e dt attract player) \<noteq> Some OtherException"
    and "\<And>callee t. engine_throws e callee t \<noteq> Some OtherException"
  shows "throws_at_most_std (Game_Update e gdt sdt w)"
  unfolding Game_Update_def
  by (rule run_steps_at_most_std)
    (auto simp add: UpdateEntities_at_most_std [OF assms(5,6)]
       UpdateFromKeyBoard_at_most_std [OF assms(4,6)] UpdateFromController_at_most_std [OF assms(6)]
       HandleJavaScriptCommands_at_most_std [OF assms(1,2,3)])

lemma render_steps_at_most_std:
  assumes "\<And>callee t. engine_throws e callee t \<noteq> Some OtherException"
  shows "throws_at_most_std (Prop_Render e p w)"
    and "throws_at_most_std (RenderEntities e w)"
    and "throws_at_most_std (RenderAttractMode e w)"
proof -
  show each: "throws_at_most_std (Prop_Render e p w)" for p w
    unfolding Prop_Render_def
    by (rule run_steps_at_most_std) (auto simp add: assms engine_at_most_std)
  show "throws_at_most_std (RenderEntities e w)"
    unfolding RenderEntities_def
    by (rule run_steps_at_most_std) (auto simp add: assms engine_at_most_std each)
  show "throws_at_most_std (RenderAttractMode e w)"
    unfolding RenderAttractMode_def
    by (rule run_steps_at_most_std) (auto simp add: assms engine_at_most_std)
qed

lemma Game_Render_at_most_std:
  assumes "\<And>callee t. engine_throws e callee t \<noteq> Some OtherException"
  shows "throws_at_most_std (Game_Render e w)"
proof -
  have steps: "throws_at_most_std (run_steps steps t)"
    if "\<forall>step \<in> set steps. \<forall>u. throws_at_most_std (step u)" for steps and t :: world
    using that by (intro run_steps_at_most_std) blast
  show ?thesis
    unfolding Game_Render_def
    by (rule with_player_at_most_std)
      (simp add: steps assms engine_at_most_std render_steps_at_most_std
         del: run_steps.simps)
qed

lemma frame_entry_points_without_script:
  "\<not> script_available w \<Longrightarrow> UpdateJS e w = Return () w"
  "\<not> script_available w \<Longrightarrow> RenderJS e w = Return () w"
  by (simp_all add: UpdateJS_def RenderJS_def)

lemma UpdateEntities_idle:
  "\<exists>w'. UpdateEntities idle_env (1 / 60) (1 / 60) (started_world False) = Return () w'
        \<and> ext_calls w' = replicate 4 (EngineCall ''DebugAddScreenText'')
        \<and> m_gameState (g_game w') = ATTRACT
        \<and> m_pitchDegrees (m_orientation (m_props (g_game w') ! 0)) = 1 / 2"
  by (simp add: UpdateEntities_def Let_def started_world_props started_world_fields
      started_world_def Game_new_def InitProps_def SpawnProps_def InitPlayer_def
      SpawnPlayer_def Game_members_default_def Prop_Update_def Prop_new_def
      InitializeLocalVertsForCube_def InitializeLocalVertsForSphere_def
      InitializeLocalVertsForGrid_def EulerAngles_ZERO_def eval_nat_numeral)

lemma frame_steps_idle:
  "m_gameState (g_game w) = ATTRACT \<Longrightarrow> UpdateFromKeyBoard idle_env w = Return () w"
  "m_gameState (g_game w) = ATTRACT \<Longrightarrow> UpdateFromController idle_env w = Return () w"
  "HandleJavaScriptCommands idle_env w = Return () w"
  by (simp_all add: UpdateFromKeyBoard_def UpdateFromController_def
      HandleJavaScriptCommands_def)

lemma Game_Update_idle:
  "\<exists>w'. Game_Update idle_env (1 / 60) (1 / 60) (started_world False) = Return () w'
        \<and> ext_calls w' = replicate 4 (EngineCall ''DebugAddScreenText'')
        \<and> m_pitchDegrees (m_orientation (m_props (g_game w') ! 0)) = 1 / 2"
proof -
  from UpdateEntities_idle obtain w' where
    entities: "UpdateEntities idle_env (1 / 60) (1 / 60) (started_world False) = Return () w'"
    and calls: "ext_calls w' = replicate 4 (EngineCall ''DebugAddScreenText'')"
    and attract: "m_gameState (g_game w') = ATTRACT"
    and pitch: "m_pitchDegrees (m_orientation (m_props (g_game w') ! 0)) = 1 / 2"
    by blast
  have "Game_Update idle_env (1 / 60) (1 / 60) (started_world False) = Return () w'"
    by (simp add: Game_Update_def entities frame_steps_idle attract HandleConsoleCommands_def)
  with calls pitch show ?thesis by blast
qed

lemma Game_Render_idle:
  "\<exists>w'. Game_Render idle_env (started_world False) = Return () w'
        \<and> ext_calls w' =
            [EngineCall ''Renderer::BeginCamera'', EngineCall ''Renderer::EndCamera'',
             EngineCall ''Renderer::BeginCamera'', EngineCall ''Renderer::SetModelConstants'',
             EngineCall ''Renderer::SetBlendMode'', EngineCall ''Renderer::SetRasterizerMode'',
             EngineCall ''Renderer::SetSamplerMode'', EngineCall ''Renderer::SetDepthMode'',
             EngineCall ''Renderer::BindTexture'', EngineCall ''Renderer::BindShader'',
             EngineCall ''Renderer::DrawVertexArray'', EngineCall ''Renderer::EndCamera'']"
  by (simp add: Game_Render_def with_player_def started_world_player started_world_fields
      RenderAttractMode_def)

subsection \<open>Properties of the game object\<close>

lemma SetProperty_string:
  "SetProperty ''gameState'' (AnyString s) w =
     (if s \<in> {''ATTRACT'', ''attract'', ''0''} then Return True (SetGameState ATTRACT w)
      else if s \<in> {''GAME'', ''game'', ''1''} then Return True (SetGameState GAME w)
      else Return False w)"
  by (simp add: SetProperty_def)

lemma SetProperty_not_string:
  "(\<forall>s. v \<noteq> AnyString s) \<Longrightarrow> SetProperty propertyName v w = Return False w"
  by (simp add: SetProperty_def ExtractString_other)

lemma SetProperty_other_name:
  "propertyName \<noteq> ''gameState'' \<Longrightarrow> SetProperty propertyName v w = Return False w"
  by (simp add: SetProperty_def)

lemma SetProperty_unrecognised:
  "s \<notin> {''ATTRACT'', ''attract'', ''0'', ''GAME'', ''game'', ''1''} \<Longrightarrow>
   SetProperty ''gameState'' (AnyString s) w = Return False w"
  by (simp add: SetProperty_string)

lemma SetProperty_gameState_string_result:
  "SetProperty ''gameState'' (AnyString s) w = Return False w
   \<or> (\<exists>st. SetProperty ''gameState'' (AnyString s) w = Return True (SetGameState st w))"
proof (cases "s \<in> {''ATTRACT'', ''attract'', ''0''}")
  case True
  then have "SetProperty ''gameState'' (AnyString s) w = Return True (SetGameState ATTRACT w)"
    by (simp only: SetProperty_string if_True)
  then show ?thesis by (intro disjI2 exI)
next
  case no_attract: False
  show ?thesis
  proof (cases "s \<in> {''GAME'', ''game'', ''1''}")
    case True
    with no_attract
    have "SetProperty ''gameState'' (AnyString s) w = Return True (SetGameState GAME w)"
      by (simp only: SetProperty_string if_True if_False)
    then show ?thesis by (intro disjI2 exI)
  next
    case False
    with no_attract have "SetProperty ''gameState'' (AnyString s) w = Return False w"
      by (simp only: SetProperty_string if_False)
    then show ?thesis by (rule disjI1)
  qed
qed

lemma SetProperty_result:
  "SetProperty propertyName v w = Return False w
   \<or> (\<exists>st. SetProperty propertyName v w = Return True (SetGameState st w))"
proof (cases "propertyName = ''gameState''")
  case False
  then show ?thesis by (simp only: SetProperty_other_name simp_thms)
next
  case name: True
  show ?thesis
  proof (cases v)
    case (AnyString s)
    show ?thesis
      unfolding name AnyString by (rule SetProperty_gameState_string_result)
  qed (simp_all add: SetProperty_not_string)
qed

lemma GetGameState_SetGameState [simp]: "GetGameState (SetGameState st w) = st"
  by (simp add: GetGameState_def SetGameState_def update_game_def)

lemma GetProperty_gameState:
  "GetProperty ''gameState'' w =
     (case GetGameState w of ATTRACT \<Rightarrow> AnyString ''ATTRACT'' | GAME \<Rightarrow> AnyString ''GAME'')"
  by (simp add: GetProperty_def)

subsection \<open>Method dispatch\<close>

lemma CallMethod_dispatch:
  "CallMethod e ''appRequestQuit'' args w =
     try_catch (ExecuteAppRequestQuit args w)
       (\<lambda>what w'. Return (Error (([CHR 0xE6, CHR 0x96, CHR 0xB9, CHR 0xE6, CHR 0xB3,
           CHR 0x95, CHR 0xE5, CHR 0x9F, CHR 0xB7, CHR 0xE8, CHR 0xA1, CHR 0x8C, CHR 0xE6,
           CHR 0x99, CHR 0x82, CHR 0xE7, CHR 0x99, CHR 0xBC, CHR 0xE7, CHR 0x94, CHR 0x9F,
           CHR 0xE4, CHR 0xBE, CHR 0x8B, CHR 0xE5, CHR 0xA4, CHR 0x96] @ '': '') @ what)) w')"
  "CallMethod e ''createCube'' args w =
     try_catch (ExecuteCreateCube e args w)
       (\<lambda>what w'. Return (Error (([CHR 0xE6, CHR 0x96, CHR 0xB9, CHR 0xE6, CHR 0xB3,
           CHR 0x95, CHR 0xE5, CHR 0x9F, CHR 0xB7, CHR 0xE8, CHR 0xA1, CHR 0x8C, CHR 0xE6,
           CHR 0x99, CHR 0x82, CHR 0xE7, CHR 0x99, CHR 0xBC, CHR 0xE7, CHR 0x94, CHR 0x9F,
           CHR 0xE4, CHR 0xBE, CHR 0x8B, CHR 0xE5, CHR 0xA4, CHR 0x96] @ '': '') @ what)) w')"
  "CallMethod e ''moveProp'' args w =
     try_catch (ExecuteMoveProp args w)
       (\<lambda>what w'. Return (Error (([CHR 0xE6, CHR 0x96, CHR 0xB9, CHR 0xE6, CHR 0xB3,
           CHR 0x95, CHR 0xE5, CHR 0x9F, CHR 0xB7, CHR 0xE8, CHR 0xA1, CHR 0x8C, CHR 0xE6,
           CHR 0x99, CHR 0x82, CHR 0xE7, CHR 0x99, CHR 0xBC, CHR 0xE7, CHR 0x94, CHR 0x9F,
           CHR 0xE4, CHR 0xBE, CHR 0x8B, CHR 0xE5, CHR 0xA4, CHR 0x96] @ '': '') @ what)) w')"
  "CallMethod e ''getPlayerPosition'' args w =
     try_catch (ExecuteGetPlayerPosition args w)
       (\<lambda>what w'. Return (Error (([CHR 0xE6, CHR 0x96, CHR 0xB9, CHR 0xE6, CHR 0xB3,
           CHR 0x95, CHR 0xE5, CHR 0x9F, CHR 0xB7, CHR 0xE8, CHR 0xA1, CHR 0x8C, CHR 0xE6,
           CHR 0x99, CHR 0x82, CHR 0xE7, CHR 0x99, CHR 0xBC, CHR 0xE7, CHR 0x94, CHR 0x9F,
           CHR 0xE4, CHR 0xBE, CHR 0x8B, CHR 0xE5, CHR 0xA4, CHR 0x96] @ '': '') @ what)) w')"
  "CallMethod e ''movePlayerCamera'' args w =
     try_catch (ExecuteMovePlayerCamera args w)
       (\<lambda>what w'. Return (Error (([CHR 0xE6, CHR 0x96, CHR 0xB9, CHR 0xE6, CHR 0xB3,
           CHR 0x95, CHR 0xE5, CHR 0x9F, CHR 0xB7, CHR 0xE8, CHR 0xA1, CHR 0x8C, CHR 0xE6,
           CHR 0x99, CHR 0x82, CHR 0xE7, CHR 0x99, CHR 0xBC, CHR 0xE7, CHR 0x94, CHR 0x9F,
           CHR 0xE4, CHR 0xBE, CHR 0x8B, CHR 0xE5, CHR 0xA4, CHR 0x96] @ '': '') @ what)) w')"
  "CallMethod e ''update'' args w =
     try_catch (ExecuteUpdate e args w)
       (\<lambda>what w'. Return (Error (([CHR 0xE6, CHR 0x96, CHR 0xB9, CHR 0xE6, CHR 0xB3,
           CHR 0x95, CHR 0xE5, CHR 0x9F, CHR 0xB7, CHR 0xE8, CHR 0xA1, CHR 0x8C, CHR 0xE6,
           CHR 0x99, CHR 0x82, CHR 0xE7, CHR 0x99, CHR 0xBC, CHR 0xE7, CHR 0x94, CHR 0x9F,
           CHR 0xE4, CHR 0xBE, CHR 0x8B, CHR 0xE5, CHR 0xA4, CHR 0x96] @ '': '') @ what)) w')"
  "CallMethod e ''render'' args w =
     try_catch (ExecuteRender e args w)
       (\<lambda>what w'. Return (Error (([CHR 0xE6, CHR 0x96, CHR 0xB9, CHR 0xE6, CHR 0xB3,
           CHR 0x95, CHR 0xE5, CHR 0x9F, CHR 0xB7, CHR 0xE8, CHR 0xA1, CHR 0x8C, CHR 0xE6,
           CHR 0x99, CHR 0x82, CHR 0xE7, CHR 0x99, CHR 0xBC, CHR 0xE7, CHR 0x94, CHR 0x9F,
           CHR 0xE4, CHR 0xBE, CHR 0x8B, CHR 0xE5, CHR 0xA4, CHR 0x96] @ '': '') @ what)) w')"
  "CallMethod e ''executeCommand'' args w =
     try_catch (ExecuteJavaScriptCommand_handler e args w)
       (\<lambda>what w'. Return (Error (([CHR 0xE6, CHR 0x96, CHR 0xB9, CHR 0xE6, CHR 0xB3,
           CHR 0x95, CHR 0xE5, CHR 0x9F, CHR 0xB7, CHR 0xE8, CHR 0xA1, CHR 0x8C, CHR 0xE6,
           CHR 0x99, CHR 0x82, CHR 0xE7, CHR 0x99, CHR 0xBC, CHR 0xE7, CHR 0x94, CHR 0x9F,
           CHR 0xE4, CHR 0xBE, CHR 0x8B, CHR 0xE5, CHR 0xA4, CHR 0x96] @ '': '') @ what)) w')"
  "CallMethod e ''executeFile'' args w =
     try_catch (ExecuteJavaScriptFile_handler e args w)
       (\<lambda>what w'. Return (Error (([CHR 0xE6, CHR 0x96, CHR 0xB9, CHR 0xE6, CHR 0xB3,
           CHR 0x95, CHR 0xE5, CHR 0x9F, CHR 0xB7, CHR 0xE8, CHR 0xA1, CHR 0x8C, CHR 0xE6,
           CHR 0x99, CHR 0x82, CHR 0xE7, CHR 0x99, CHR 0xBC, CHR 0xE7, CHR 0x94, CHR 0x9F,
           CHR 0xE4, CHR 0xBE, CHR 0x8B, CHR 0xE5, CHR 0xA4, CHR 0x96] @ '': '') @ what)) w')"
  "CallMethod e ''isAttractMode'' args w =
     try_catch (ExecuteIsAttractMode args w)
       (\<lambda>what w'. Return (Error (([CHR 0xE6, CHR 0x96, CHR 0xB9, CHR 0xE6, CHR 0xB3,
           CHR 0x95, CHR 0xE5, CHR 0x9F, CHR 0xB7, CHR 0xE8, CHR 0xA1, CHR 0x8C, CHR 0xE6,
           CHR 0x99, CHR 0x82, CHR 0xE7, CHR 0x99, CHR 0xBC, CHR 0xE7, CHR 0x94, CHR 0x9F,
           CHR 0xE4, CHR 0xBE, CHR 0x8B, CHR 0xE5, CHR 0xA4, CHR 0x96] @ '': '') @ what)) w')"
  by (simp_all add: CallMethod_def)

lemma CallMethod_unknown:
  "methodName \<notin> {''appRequestQuit'', ''createCube'', ''moveProp'', ''getPlayerPosition'',
      ''movePlayerCamera'', ''update'', ''render'', ''executeCommand'', ''executeFile'',
      ''isAttractMode''} \<Longrightarrow>
   CallMethod e methodName args w = Return (Error (([CHR 0xE6, CHR 0x9C, CHR 0xAA, CHR 0xE7,
       CHR 0x9F, CHR 0xA5, CHR 0xE7, CHR 0x9A, CHR 0x84, CHR 0xE6, CHR 0x96, CHR 0xB9, CHR 0xE6,
       CHR 0xB3, CHR 0x95] @ '': '') @ methodName)) w"
  by (simp add: CallMethod_def)

lemma handlers_check_count_first:
  "length args \<noteq> 0 \<Longrightarrow>
     ExecuteAppRequestQuit args w = Return (ValidateArgCount args 0 ''appRequestQuit'') w"
  "length args \<noteq> 3 \<Longrightarrow>
     ExecuteCreateCube e args w = Return (ValidateArgCount args 3 ''createCube'') w"
  "length args \<noteq> 4 \<Longrightarrow>
     ExecuteMoveProp args w = Return (ValidateArgCount args 4 ''moveProp'') w"
  "length args \<noteq> 0 \<Longrightarrow>
     ExecuteGetPlayerPosition args w = Return (ValidateArgCount args 0 ''getPlayerPosition'') w"
  "length args \<noteq> 3 \<Longrightarrow>
     ExecuteMovePlayerCamera args w = Return (ValidateArgCount args 3 ''movePlayerCamera'') w"
  "length args \<noteq> 2 \<Longrightarrow>
     ExecuteUpdate e args w = Return (ValidateArgCount args 2 ''Update'') w"
  "length args \<noteq> 0 \<Longrightarrow>
     ExecuteRender e args w = Return (ValidateArgCount args 0 ''Render'') w"
  "length args \<noteq> 1 \<Longrightarrow>
     ExecuteJavaScriptCommand_handler e args w
       = Return (ValidateArgCount args 1 ''executeCommand'') w"
  "length args \<noteq> 1 \<Longrightarrow>
     ExecuteJavaScriptFile_handler e args w = Return (ValidateArgCount args 1 ''executeFile'') w"
  "length args \<noteq> 0 \<Longrightarrow>
     ExecuteIsAttractMode args w = Return (ValidateArgCount args 0 ''isAttractMode'') w"
  by (simp_all add: ExecuteAppRequestQuit_def ExecuteCreateCube_def ExecuteMoveProp_def
      ExecuteGetPlayerPosition_def ExecuteMovePlayerCamera_def ExecuteUpdate_def
      ExecuteRender_def ExecuteJavaScriptCommand_handler_def ExecuteJavaScriptFile_handler_def
      ExecuteIsAttractMode_def ValidateArgCount_mismatch)

lemma CallMethod_wrong_count:
  "length args \<noteq> 0 \<Longrightarrow>
     CallMethod e ''appRequestQuit'' args w
       = Return (ValidateArgCount args 0 ''appRequestQuit'') w"
  "length args \<noteq> 3 \<Longrightarrow>
     CallMethod e ''createCube'' args w = Return (ValidateArgCount args 3 ''createCube'') w"
  "length args \<noteq> 4 \<Longrightarrow>
     CallMethod e ''moveProp'' args w = Return (ValidateArgCount args 4 ''moveProp'') w"
  "length args \<noteq> 0 \<Longrightarrow>
     CallMethod e ''getPlayerPosition'' args w
       = Return (ValidateArgCount args 0 ''getPlayerPosition'') w"
  "length args \<noteq> 3 \<Longrightarrow>
     CallMethod e ''movePlayerCamera'' args w
       = Return (ValidateArgCount args 3 ''movePlayerCamera'') w"
  "length args \<noteq> 2 \<Longrightarrow>
     CallMethod e ''update'' args w = Return (ValidateArgCount args 2 ''Update'') w"
  "length args \<noteq> 0 \<Longrightarrow>
     CallMethod e ''render'' args w = Return (ValidateArgCount args 0 ''Render'') w"
  "length args \<noteq> 1 \<Longrightarrow>
     CallMethod e ''executeCommand'' args w
       = Return (ValidateArgCount args 1 ''executeCommand'') w"
  "length args \<noteq> 1 \<Longrightarrow>
     CallMethod e ''executeFile'' args w = Return (ValidateArgCount args 1 ''executeFile'') w"
  "length args \<noteq> 0 \<Longrightarrow>
     CallMethod e ''isAttractMode'' args w
       = Return (ValidateArgCount args 0 ''isAttractMode'') w"
  by (simp_all add: CallMethod_dispatch handlers_check_count_first del: append.simps)

lemma available_method_cases:
  "info \<in> set GetAvailableMethods \<Longrightarrow>
   (info_name info, length (info_parameters info)) \<in>
     {(''appRequestQuit'', 0), (''createCube'', 3), (''moveProp'', 4),
      (''getPlayerPosition'', 0), (''movePlayerCamera'', 3), (''update'', 2), (''render'', 0),
      (''executeCommand'', 1), (''executeFile'', 1), (''isAttractMode'', 0),
      (''getFileTimestamp'', 1)}"
  unfolding GetAvailableMethods_def ScriptMethodInfo_def
  by (elim set_ConsD [elim_format] disjE; simp)

lemma guarded_not_throws:
  "\<not> throws caught \<Longrightarrow>
   \<not> throws (let result = r in if \<not> success result then Return result w else caught)"
  by (simp add: Let_def)

lemma handlers_without_engine_calls_not_throw:
  "\<not> throws (ExecuteAppRequestQuit args w)"
  "\<not> throws (ExecuteCreateCube e args w)"
  "\<not> throws (ExecuteMoveProp args w)"
  "\<not> throws (ExecuteGetPlayerPosition args w)"
  "\<not> throws (ExecuteMovePlayerCamera args w)"
  "\<not> throws (ExecuteIsAttractMode args w)"
proof -
  show "\<not> throws (ExecuteAppRequestQuit args w)"
    by (simp add: ExecuteAppRequestQuit_def Let_def)
  show "\<not> throws (ExecuteCreateCube e args w)"
    unfolding ExecuteCreateCube_def
    by (rule guarded_not_throws)
      (intro try_catch_not_throws and_then_at_most_std extraction_at_most_std; simp)
  show "\<not> throws (ExecuteMoveProp args w)"
    unfolding ExecuteMoveProp_def
    by (rule guarded_not_throws)
      (intro try_catch_not_throws and_then_at_most_std extraction_at_most_std; simp)
  show "\<not> throws (ExecuteGetPlayerPosition args w)"
    by (simp add: ExecuteGetPlayerPosition_def Let_def split: option.splits)
  show "\<not> throws (ExecuteMovePlayerCamera args w)"
    unfolding ExecuteMovePlayerCamera_def
    by (rule guarded_not_throws)
      (intro try_catch_not_throws and_then_at_most_std extraction_at_most_std; simp)
  show "\<not> throws (ExecuteIsAttractMode args w)"
    by (simp add: ExecuteIsAttractMode_def Let_def)
qed

lemma handlers_with_engine_calls_not_throw:
  "(\<And>gdt sdt t. throws_at_most_std (Game_Update e gdt sdt t)) \<Longrightarrow>
     \<not> throws (ExecuteUpdate e args w)"
  "throws_at_most_std (Game_Render e w) \<Longrightarrow> \<not> throws (ExecuteRender e args w)"
  "(\<And>command t. throws_at_most_std (ExecuteJavaScriptCommand e command t)) \<Longrightarrow>
     \<not> throws (ExecuteJavaScriptCommand_handler e args w)"
  "(\<And>filename t. throws_at_most_std (ExecuteJavaScriptFile e filename t)) \<Longrightarrow>
     \<not> throws (ExecuteJavaScriptFile_handler e args w)"
proof -
  show "\<not> throws (ExecuteUpdate e args w)"
    if "\<And>gdt sdt t. throws_at_most_std (Game_Update e gdt sdt t)"
    unfolding ExecuteUpdate_def
    by (rule guarded_not_throws)
      (intro try_catch_not_throws and_then_at_most_std extraction_at_most_std that; simp)
  show "\<not> throws (ExecuteRender e args w)" if "throws_at_most_std (Game_Render e w)"
    unfolding ExecuteRender_def
    by (rule guarded_not_throws) (intro try_catch_not_throws and_then_at_most_std that; simp)
  show "\<not> throws (ExecuteJavaScriptCommand_handler e args w)"
    if "\<And>command t. throws_at_most_std (ExecuteJavaScriptCommand e command t)"
    unfolding ExecuteJavaScriptCommand_handler_def
    by (rule guarded_not_throws)
      (intro try_catch_not_throws and_then_at_most_std extraction_at_most_std that; simp)
  show "\<not> throws (ExecuteJavaScriptFile_handler e args w)"
    if "\<And>filename t. throws_at_most_std (ExecuteJavaScriptFile e filename t)"
    unfolding ExecuteJavaScriptFile_handler_def
    by (rule guarded_not_throws)
      (intro try_catch_not_throws and_then_at_most_std extraction_at_most_std that; simp)
qed

lemma CallMethod_not_throws:
  assumes "\<And>source t. throws_at_most_std (ExecuteScript e source t)"
    and "\<And>path t. throws_at_most_std (ExecuteScriptFile e path t)"
    and "\<And>source name t. throws_at_most_std (ExecuteRegisteredScript e source name t)"
    and "\<And>n t. throws_at_most_std (ValidatePhaseModuleSystem e n t)"
    and "\<And>dt attract player. snd (Player_Update e dt attract player) \<noteq> Some OtherException"
    and "\<And>callee t. engine_throws e callee t \<noteq> Some OtherException"
  shows "\<not> throws (CallMethod e methodName args w)"
proof -
  note handlers = handlers_without_engine_calls_not_throw
    handlers_with_engine_calls_not_throw(1) [of e, OF Game_Update_at_most_std [OF assms]]
    handlers_with_engine_calls_not_throw(2) [of e, OF Game_Render_at_most_std [OF assms(6)]]
    handlers_with_engine_calls_not_throw(3) [of e, OF script_calls_at_most_std(1) [OF assms(1,2,3)]]
    handlers_with_engine_calls_not_throw(4) [of e, OF script_calls_at_most_std(4) [OF assms(1,2,3)]]
  show ?thesis
  proof (cases "methodName \<in> {''appRequestQuit'', ''createCube'', ''moveProp'',
      ''getPlayerPosition'', ''movePlayerCamera'', ''update'', ''render'', ''executeCommand'',
      ''executeFile'', ''isAttractMode''}")
    case False
    then show ?thesis by (simp only: CallMethod_unknown throws.simps not_False_eq_True)
  next
    case True
    then show ?thesis
      by (elim insertE emptyE)
        (simp_all only: CallMethod_dispatch,
         (rule try_catch_not_throws, rule not_throws_at_most_std, rule handlers,
          simp only: throws.simps not_False_eq_True)+)
  qed
qed

lemma CallMethod_Throw:
  "CallMethod e methodName args w = Throw ex w' \<Longrightarrow> ex = OtherException"
  unfolding CallMethod_def by (drule try_catch_Throw) simp_all

lemma native_exception_in_handler:
  "length args = 2 \<Longrightarrow> ExtractFloat (args ! 0) = Inr gdt \<Longrightarrow>
   ExtractFloat (args ! 1) = Inr sdt \<Longrightarrow>
   Game_Update e gdt sdt w = Throw (StdException what) w' \<Longrightarrow>
     CallMethod e ''update'' args w = Return (Error (''Update failed: '' @ what)) w'"
  "length args = 0 \<Longrightarrow> Game_Render e w = Throw (StdException what) w' \<Longrightarrow>
     CallMethod e ''render'' args w = Return (Error (''Render failed: '' @ what)) w'"
  "length args = 1 \<Longrightarrow> ExtractString (args ! 0) = Inr command \<Longrightarrow>
   ExecuteJavaScriptCommand e command w = Throw (StdException what) w' \<Longrightarrow>
     CallMethod e ''executeCommand'' args w
       = Return (Error (([CHR 0xE5, CHR 0x9F, CHR 0xB7, CHR 0xE8, CHR 0xA1,
           CHR 0x8C] @ '' JavaScript '' @ [CHR 0xE6, CHR 0x8C, CHR 0x87, CHR 0xE4, CHR 0xBB,
           CHR 0xA4, CHR 0xE5, CHR 0xA4, CHR 0xB1, CHR 0xE6, CHR 0x95,
           CHR 0x97] @ '': '') @ what)) w'"
  "length args = 1 \<Longrightarrow> ExtractString (args ! 0) = Inr filename \<Longrightarrow>
   ExecuteJavaScriptFile e filename w = Throw (StdException what) w' \<Longrightarrow>
     CallMethod e ''executeFile'' args w
       = Return (Error (([CHR 0xE5, CHR 0x9F, CHR 0xB7, CHR 0xE8, CHR 0xA1,
           CHR 0x8C] @ '' JavaScript '' @ [CHR 0xE6, CHR 0xAA, CHR 0x94, CHR 0xE6, CHR 0xA1,
           CHR 0x88, CHR 0xE5, CHR 0xA4, CHR 0xB1, CHR 0xE6, CHR 0x95,
           CHR 0x97] @ '': '') @ what)) w'"
  by (simp_all add: CallMethod_dispatch ExecuteUpdate_def ExecuteRender_def
      ExecuteJavaScriptCommand_handler_def ExecuteJavaScriptFile_handler_def del: append.simps)

lemma other_object_in_handler:
  "length args = 2 \<Longrightarrow> ExtractFloat (args ! 0) = Inr gdt \<Longrightarrow>
   ExtractFloat (args ! 1) = Inr sdt \<Longrightarrow>
   Game_Update e gdt sdt w = Throw OtherException w' \<Longrightarrow>
     CallMethod e ''update'' args w = Throw OtherException w'"
  "length args = 0 \<Longrightarrow> Game_Render e w = Throw OtherException w' \<Longrightarrow>
     CallMethod e ''render'' args w = Throw OtherException w'"
  "length args = 1 \<Longrightarrow> ExtractString (args ! 0) = Inr command \<Longrightarrow>
   ExecuteJavaScriptCommand e command w = Throw OtherException w' \<Longrightarrow>
     CallMethod e ''executeCommand'' args w = Throw OtherException w'"
  "length args = 1 \<Longrightarrow> ExtractString (args ! 0) = Inr filename \<Longrightarrow>
   ExecuteJavaScriptFile e filename w = Throw OtherException w' \<Longrightarrow>
     CallMethod e ''executeFile'' args w = Throw OtherException w'"
  by (simp_all add: CallMethod_dispatch ExecuteUpdate_def ExecuteRender_def
      ExecuteJavaScriptCommand_handler_def ExecuteJavaScriptFile_handler_def del: append.simps)

lemma Game_Render_raising:
  "Game_Render (engine_raising_env ex) (started_world True) = Throw ex (started_world True)"
  by (simp add: Game_Render_def with_player_def started_world_player engine_def
      engine_raising_env_def)

lemma ExecuteJavaScriptCommand_raising:
  "ExecuteJavaScriptCommand (raising_env ex) command (started_world True)
     = Throw ex (started_world True)"
  by (simp add: ExecuteJavaScriptCommand_def started_world_fields)

lemma failed_read_is_error:
  "length args = 3 \<Longrightarrow> ExtractVec3 args 0 = Inl (StdException what) \<Longrightarrow>
     CallMethod e ''createCube'' args w = Return (Error (([CHR 0xE5, CHR 0x89, CHR 0xB5,
         CHR 0xE5, CHR 0xBB, CHR 0xBA, CHR 0xE7, CHR 0xAB, CHR 0x8B, CHR 0xE6, CHR 0x96,
         CHR 0xB9, CHR 0xE9, CHR 0xAB, CHR 0x94, CHR 0xE5, CHR 0xA4, CHR 0xB1, CHR 0xE6,
         CHR 0x95, CHR 0x97] @ '': '') @ what)) w"
  "length args = 4 \<Longrightarrow> ExtractInt (args ! 0) = Inl (StdException what) \<Longrightarrow>
     CallMethod e ''moveProp'' args w = Return (Error (([CHR 0xE7, CHR 0xA7, CHR 0xBB, CHR 0xE5,
         CHR 0x8B, CHR 0x95, CHR 0xE9, CHR 0x81, CHR 0x93, CHR 0xE5, CHR 0x85, CHR 0xB7,
         CHR 0xE5, CHR 0xA4, CHR 0xB1, CHR 0xE6, CHR 0x95, CHR 0x97] @ '': '') @ what)) w"
  "length args = 4 \<Longrightarrow> ExtractInt (args ! 0) = Inr i \<Longrightarrow>
   ExtractVec3 args 1 = Inl (StdException what) \<Longrightarrow>
     CallMethod e ''moveProp'' args w = Return (Error (([CHR 0xE7, CHR 0xA7, CHR 0xBB, CHR 0xE5,
         CHR 0x8B, CHR 0x95, CHR 0xE9, CHR 0x81, CHR 0x93, CHR 0xE5, CHR 0x85, CHR 0xB7,
         CHR 0xE5, CHR 0xA4, CHR 0xB1, CHR 0xE6, CHR 0x95, CHR 0x97] @ '': '') @ what)) w"
  "length args = 3 \<Longrightarrow> ExtractVec3 args 0 = Inl (StdException what) \<Longrightarrow>
     CallMethod e ''movePlayerCamera'' args w
       = Return (Error (([CHR 0xE7, CHR 0xA7, CHR 0xBB, CHR 0xE5, CHR 0x8B, CHR 0x95, CHR 0xE7,
           CHR 0x8E, CHR 0xA9, CHR 0xE5, CHR 0xAE, CHR 0xB6, CHR 0xE7, CHR 0x9B, CHR 0xB8,
           CHR 0xE6, CHR 0xA9, CHR 0x9F, CHR 0xE5, CHR 0xA4, CHR 0xB1, CHR 0xE6, CHR 0x95,
           CHR 0x97] @ '': '') @ what)) w"
  "length args = 2 \<Longrightarrow> ExtractFloat (args ! 0) = Inl (StdException what) \<Longrightarrow>
     CallMethod e ''update'' args w = Return (Error (''Update failed: '' @ what)) w"
  "length args = 2 \<Longrightarrow> ExtractFloat (args ! 0) = Inr gdt \<Longrightarrow>
   ExtractFloat (args ! 1) = Inl (StdException what) \<Longrightarrow>
     CallMethod e ''update'' args w = Return (Error (''Update failed: '' @ what)) w"
  "length args = 1 \<Longrightarrow> ExtractString (args ! 0) = Inl (StdException what) \<Longrightarrow>
     CallMethod e ''executeCommand'' args w
       = Return (Error (([CHR 0xE5, CHR 0x9F, CHR 0xB7, CHR 0xE8, CHR 0xA1,
           CHR 0x8C] @ '' JavaScript '' @ [CHR 0xE6, CHR 0x8C, CHR 0x87, CHR 0xE4, CHR 0xBB,
           CHR 0xA4, CHR 0xE5, CHR 0xA4, CHR 0xB1, CHR 0xE6, CHR 0x95,
           CHR 0x97] @ '': '') @ what)) w"
  "length args = 1 \<Longrightarrow> ExtractString (args ! 0) = Inl (StdException what) \<Longrightarrow>
     CallMethod e ''executeFile'' args w
       = Return (Error (([CHR 0xE5, CHR 0x9F, CHR 0xB7, CHR 0xE8, CHR 0xA1,
           CHR 0x8C] @ '' JavaScript '' @ [CHR 0xE6, CHR 0xAA, CHR 0x94, CHR 0xE6, CHR 0xA1,
           CHR 0x88, CHR 0xE5, CHR 0xA4, CHR 0xB1, CHR 0xE6, CHR 0x95,
           CHR 0x97] @ '': '') @ what)) w"
  by (simp_all add: CallMethod_dispatch ExecuteCreateCube_def ExecuteMoveProp_def
      ExecuteMovePlayerCamera_def ExecuteUpdate_def ExecuteJavaScriptCommand_handler_def
      ExecuteJavaScriptFile_handler_def del: append.simps)

lemma ExecuteCreateCube_one_two_three:
  "ExecuteCreateCube e [AnyFloat 1, AnyFloat 2, AnyFloat 3] w =
     Return (Success (AnyString (([CHR 0xE7, CHR 0xAB, CHR 0x8B, CHR 0xE6, CHR 0x96, CHR 0xB9,
         CHR 0xE9, CHR 0xAB, CHR 0x94, CHR 0xE5, CHR 0x89, CHR 0xB5, CHR 0xE5, CHR 0xBB,
         CHR 0xBA, CHR 0xE6, CHR 0x88, CHR 0x90, CHR 0xE5, CHR 0x8A, CHR 0x9F, CHR 0xEF,
         CHR 0xBC, CHR 0x8C, CHR 0xE4, CHR 0xBD, CHR 0x8D, CHR 0xE7, CHR 0xBD,
         CHR 0xAE] @ '': ('') @ ''1.000000, 2.000000, 3.000000)'')))
       (CreateCube e (Vec3 1 2 3) w)"
  by (simp add: ExecuteCreateCube_def to_string_small)

lemma CallMethod_moveProp_numbers:
  "CallMethod e ''moveProp'' [AnyInt propIndex, AnyFloat a, AnyFloat b, AnyFloat c] w =
     Return
       (Success (AnyString
          (([CHR 0xE9, CHR 0x81, CHR 0x93, CHR 0xE5, CHR 0x85,
              CHR 0xB7] @ '' '') @ to_string_int propIndex @ ('' '' @ [CHR 0xE7, CHR 0xA7,
              CHR 0xBB, CHR 0xE5, CHR 0x8B, CHR 0x95, CHR 0xE6, CHR 0x88, CHR 0x90, CHR 0xE5,
              CHR 0x8A, CHR 0x9F, CHR 0xEF, CHR 0xBC, CHR 0x8C, CHR 0xE6, CHR 0x96, CHR 0xB0,
              CHR 0xE4, CHR 0xBD, CHR 0x8D, CHR 0xE7, CHR 0xBD, CHR 0xAE] @ '': ('')
           @ to_string a @ '', '' @ to_string b @ '', '' @ to_string c @ '')'')))
       (MoveProp propIndex (Vec3 a b c) w)"
  by (simp add: CallMethod_def ExecuteMoveProp_def)

section \<open>The claims\<close>

text \<open>
  Claim C1 fails on the code. \<^verbatim>\<open>GetAvailableMethods\<close> lists \<open>getFileTimestamp\<close> with one
  string parameter, but \<^verbatim>\<open>CallMethod\<close> has no branch for that name: called with one
  string it returns the unknown-method error.
\<close>

theorem getFileTimestamp_is_listed_but_unknown:
  "ScriptMethodInfo ''getFileTimestamp''
       [CHR 0xE5, CHR 0x8F, CHR 0x96, CHR 0xE5, CHR 0xBE, CHR 0x97, CHR 0xE6, CHR 0xAA,
           CHR 0x94, CHR 0xE6, CHR 0xA1, CHR 0x88, CHR 0xE7, CHR 0x9A, CHR 0x84, CHR 0xE6,
           CHR 0x9C, CHR 0x80, CHR 0xE5, CHR 0xBE, CHR 0x8C, CHR 0xE4, CHR 0xBF, CHR 0xAE,
           CHR 0xE6, CHR 0x94, CHR 0xB9, CHR 0xE6, CHR 0x99, CHR 0x82, CHR 0xE9, CHR 0x96,
           CHR 0x93, CHR 0xE6, CHR 0x88, CHR 0xB3, CHR 0xE8, CHR 0xA8, CHR 0x98]
       [''string''] ''number'' \<in> set GetAvailableMethods
   \<and> CallMethod e ''getFileTimestamp'' [AnyString path] w
       = Return (Error (([CHR 0xE6, CHR 0x9C, CHR 0xAA, CHR 0xE7, CHR 0x9F, CHR 0xA5, CHR 0xE7,
           CHR 0x9A, CHR 0x84, CHR 0xE6, CHR 0x96, CHR 0xB9, CHR 0xE6, CHR 0xB3,
           CHR 0x95] @ '': '') @ ''getFileTimestamp'')) w"
  by (simp add: GetAvailableMethods_def CallMethod_unknown del: append.simps)

theorem getFileTimestamp_is_listed_but_unknown_witness:
  "ScriptMethodInfo ''getFileTimestamp''
       [CHR 0xE5, CHR 0x8F, CHR 0x96, CHR 0xE5, CHR 0xBE, CHR 0x97, CHR 0xE6, CHR 0xAA,
           CHR 0x94, CHR 0xE6, CHR 0xA1, CHR 0x88, CHR 0xE7, CHR 0x9A, CHR 0x84, CHR 0xE6,
           CHR 0x9C, CHR 0x80, CHR 0xE5, CHR 0xBE, CHR 0x8C, CHR 0xE4, CHR 0xBF, CHR 0xAE,
           CHR 0xE6, CHR 0x94, CHR 0xB9, CHR 0xE6, CHR 0x99, CHR 0x82, CHR 0xE9, CHR 0x96,
           CHR 0x93, CHR 0xE6, CHR 0x88, CHR 0xB3, CHR 0xE8, CHR 0xA8, CHR 0x98]
       [''string''] ''number'' \<in> set GetAvailableMethods
   \<and> CallMethod idle_env ''getFileTimestamp'' [AnyString ''Data/Scripts/main.mjs'']
         (started_world True)
       = Return (Error (([CHR 0xE6, CHR 0x9C, CHR 0xAA, CHR 0xE7, CHR 0x9F, CHR 0xA5, CHR 0xE7,
           CHR 0x9A, CHR 0x84, CHR 0xE6, CHR 0x96, CHR 0xB9, CHR 0xE6, CHR 0xB3,
           CHR 0x95] @ '': '') @ ''getFileTimestamp''))
           (started_world True)"
  using getFileTimestamp_is_listed_but_unknown
      [of idle_env "''Data/Scripts/main.mjs''" "started_world True"]
  by simp

text \<open>
  Claim C2, as the code has it. When the script subsystem is missing or not initialised,
  \<^verbatim>\<open>Game::UpdateJS\<close> and \<^verbatim>\<open>Game::RenderJS\<close> do nothing at all: each returns, and the
  state after the call is the state before it, so no native update or render has run and
  nothing was handed to the script engine.
\<close>

theorem UpdateJS_RenderJS_do_nothing_without_script:
  "\<not> script_available w \<Longrightarrow> UpdateJS e w = Return () w \<and> RenderJS e w = Return () w"
  by (simp add: frame_entry_points_without_script)

theorem UpdateJS_RenderJS_do_nothing_without_script_witness:
  "\<not> script_available (started_world False)
   \<and> UpdateJS idle_env (started_world False) = Return () (started_world False)
   \<and> RenderJS idle_env (started_world False) = Return () (started_world False)"
  using UpdateJS_RenderJS_do_nothing_without_script [of "started_world False" idle_env]
  by simp

text \<open>
  The claim as stated fails. On an idle frame with a script subsystem that is not
  initialised, the native update and render would each change the state (the update turns
  the first prop, and both hand work to the renderer), while \<^verbatim>\<open>UpdateJS\<close> and
  \<^verbatim>\<open>RenderJS\<close> leave the state untouched: neither native method is invoked.
\<close>

theorem UpdateJS_RenderJS_fallback_counterexample:
  "\<not> script_available (started_world False)
   \<and> Game_Update idle_env (gameClock_GetDeltaSeconds idle_env)
         (systemClock_GetDeltaSeconds idle_env) (started_world False)
       \<noteq> UpdateJS idle_env (started_world False)
   \<and> Game_Render idle_env (started_world False)
       \<noteq> RenderJS idle_env (started_world False)
   \<and> UpdateJS idle_env (started_world False) = Return () (started_world False)
   \<and> RenderJS idle_env (started_world False) = Return () (started_world False)"
proof -
  have no_script: "\<not> script_available (started_world False)"
    by simp
  have update: "UpdateJS idle_env (started_world False) = Return () (started_world False)"
    and render: "RenderJS idle_env (started_world False) = Return () (started_world False)"
    using no_script by (simp_all add: frame_entry_points_without_script)
  from Game_Update_idle obtain w' where
    "Game_Update idle_env (1 / 60) (1 / 60) (started_world False) = Return () w'"
    and "ext_calls w' = replicate 4 (EngineCall ''DebugAddScreenText'')"
    by blast
  then have "Game_Update idle_env (1 / 60) (1 / 60) (started_world False)
      \<noteq> Return () (started_world False)"
    by (auto simp add: started_world_fields)
  moreover from Game_Render_idle obtain w'' where
    "Game_Render idle_env (started_world False) = Return () w''"
    and "ext_calls w'' \<noteq> []"
    by auto
  then have "Game_Render idle_env (started_world False) \<noteq> Return () (started_world False)"
    by (auto simp add: started_world_fields)
  ultimately show ?thesis
    using no_script by (simp add: update render)
qed

text \<open>
  Claim C3, as the code has it. Writing \<^verbatim>\<open>gameState\<close> accepts exactly six spellings:
  \<open>ATTRACT\<close>, \<open>attract\<close> and \<open>0\<close> set the attract state, \<open>GAME\<close>, \<open>game\<close> and \<open>1\<close>
  set the game state, and \<^verbatim>\<open>SetProperty\<close> then returns true. Every other string, a
  mixed-case spelling included, returns false and leaves the state as it was.
\<close>

theorem SetProperty_gameState_accepts_six_spellings:
  "(s \<in> {''ATTRACT'', ''attract'', ''0''} \<longrightarrow>
      SetProperty ''gameState'' (AnyString s) w = Return True (SetGameState ATTRACT w)
      \<and> GetGameState (SetGameState ATTRACT w) = ATTRACT)
   \<and> (s \<in> {''GAME'', ''game'', ''1''} \<longrightarrow>
      SetProperty ''gameState'' (AnyString s) w = Return True (SetGameState GAME w)
      \<and> GetGameState (SetGameState GAME w) = GAME)
   \<and> (s \<notin> {''ATTRACT'', ''attract'', ''0'', ''GAME'', ''game'', ''1''} \<longrightarrow>
      SetProperty ''gameState'' (AnyString s) w = Return False w)"
  by (simp add: SetProperty_string)

theorem SetProperty_gameState_accepts_six_spellings_witness:
  "SetProperty ''gameState'' (AnyString ''attract'') (started_world True)
     = Return True (SetGameState ATTRACT (started_world True))
   \<and> SetProperty ''gameState'' (AnyString ''1'') (started_world True)
     = Return True (SetGameState GAME (started_world True))
   \<and> SetProperty ''gameState'' (AnyString ''gAmE'') (started_world True)
     = Return False (started_world True)"
  using SetProperty_gameState_accepts_six_spellings [of "''attract''" "started_world True"]
    SetProperty_gameState_accepts_six_spellings [of "''1''" "started_world True"]
    SetProperty_gameState_accepts_six_spellings [of "''gAmE''" "started_world True"]
  by simp

text \<open>
  The claim as stated fails: \<open>Game\<close> equals \<open>GAME\<close> under case-insensitive comparison,
  yet writing it returns false and changes nothing.
\<close>

theorem SetProperty_gameState_mixed_case_counterexample:
  "equals_ignoring_case ''Game'' ''GAME''
   \<and> SetProperty ''gameState'' (AnyString ''Game'') (started_world True)
       = Return False (started_world True)"
  by (simp add: equals_ignoring_case_def to_upper_def SetProperty_string)




text \<open>
  Claim C5. For every method the game object lists, a call with a number of arguments
  other than the listed one returns an error and leaves the whole state as it was. For
  each of the ten methods \<^verbatim>\<open>CallMethod\<close> dispatches, the error is the one
  \<^verbatim>\<open>ValidateArgCount\<close> produces, so the count is rejected before any argument is read.
\<close>

theorem CallMethod_wrong_argument_count_is_error_without_effect:
  "info \<in> set GetAvailableMethods \<Longrightarrow>
   length args \<noteq> length (info_parameters info) \<Longrightarrow>
   \<exists>msg. CallMethod e (info_name info) args w = Return (Error msg) w
         \<and> (info_name info \<noteq> ''getFileTimestamp'' \<longrightarrow>
              (\<exists>label. Error msg
                 = ValidateArgCount args (length (info_parameters info)) label))"
proof -
  assume listed: "info \<in> set GetAvailableMethods"
    and count: "length args \<noteq> length (info_parameters info)"
  let ?n = "length (info_parameters info)"
  have mismatch: "\<And>label. ValidateArgCount args ?n label =
      Error (label @ '' expects '' @ decimal ?n @ '' arguments, got '' @ decimal (length args))"
    using count by (rule ValidateArgCount_mismatch)
  from available_method_cases [OF listed]
  consider
    (dispatched) label where "CallMethod e (info_name info) args w
        = Return (ValidateArgCount args ?n label) w"
  | (unknown) "info_name info = ''getFileTimestamp''"
  proof (elim insertE emptyE)
    assume "(info_name info, ?n) = (''getFileTimestamp'', 1)"
    then show ?thesis using that(2) by simp
  qed (use count that(1) in \<open>simp add: CallMethod_wrong_count\<close>)+
  then show ?thesis
  proof cases
    case dispatched
    then show ?thesis by (simp add: mismatch)
  next
    case unknown
    then show ?thesis by (simp add: CallMethod_unknown)
  qed
qed

theorem CallMethod_wrong_argument_count_is_error_without_effect_witness:
  "CallMethod idle_env ''createCube'' [AnyFloat 1, AnyFloat 2] (started_world True)
     = Return (Error ''createCube expects 3 arguments, got 2'') (started_world True)
   \<and> CallMethod idle_env ''update'' [] (started_world True)
     = Return (Error ''Update expects 2 arguments, got 0'') (started_world True)"
proof -
  have "GetAvailableMethods ! 1 \<in> set GetAvailableMethods"
    by (simp add: GetAvailableMethods_def)
  from CallMethod_wrong_argument_count_is_error_without_effect
         [OF this, of "[AnyFloat 1, AnyFloat 2]" idle_env "started_world True"]
  show ?thesis
    by (simp add: CallMethod_wrong_count ValidateArgCount_def decimal.simps digit_char_def)
qed

text \<open>
  Claim C6. \<^verbatim>\<open>SetProperty\<close> returns false for an unknown property name, for a value
  that is not a string, and for a string that is not a recognised encoding of the game
  state; whenever it returns false the whole state, and so what
  \<^verbatim>\<open>GetProperty("gameState")\<close> yields, is as before. It never throws or ends the process.
\<close>

theorem SetProperty_failure_leaves_state_unchanged:
  "(propertyName \<noteq> ''gameState'' \<longrightarrow> SetProperty propertyName v w = Return False w)
   \<and> ((\<forall>s. v \<noteq> AnyString s) \<longrightarrow> SetProperty propertyName v w = Return False w)
   \<and> ((\<exists>s. v = AnyString s \<and> s \<notin> {''ATTRACT'', ''attract'', ''0'', ''GAME'', ''game'', ''1''})
        \<longrightarrow> SetProperty propertyName v w = Return False w)
   \<and> (\<exists>ok w'. SetProperty propertyName v w = Return ok w'
         \<and> (\<not> ok \<longrightarrow> w' = w \<and> GetProperty ''gameState'' w' = GetProperty ''gameState'' w))"
proof (intro conjI impI)
  assume "propertyName \<noteq> ''gameState''"
  then show "SetProperty propertyName v w = Return False w"
    by (rule SetProperty_other_name)
next
  assume "\<forall>s. v \<noteq> AnyString s"
  then show "SetProperty propertyName v w = Return False w"
    by (rule SetProperty_not_string)
next
  assume "\<exists>s. v = AnyString s \<and> s \<notin> {''ATTRACT'', ''attract'', ''0'', ''GAME'', ''game'', ''1''}"
  then obtain s where v: "v = AnyString s"
    and s: "s \<notin> {''ATTRACT'', ''attract'', ''0'', ''GAME'', ''game'', ''1''}"
    by (elim exE conjE)
  show "SetProperty propertyName v w = Return False w"
  proof (cases "propertyName = ''gameState''")
    case name: True
    from s show ?thesis
      unfolding name v by (rule SetProperty_unrecognised)
  next
    case False
    then show ?thesis by (rule SetProperty_other_name)
  qed
next
  from SetProperty_result [of propertyName v w]
  show "\<exists>ok w'. SetProperty propertyName v w = Return ok w'
         \<and> (\<not> ok \<longrightarrow> w' = w \<and> GetProperty ''gameState'' w' = GetProperty ''gameState'' w)"
  proof (elim disjE exE)
    assume "SetProperty propertyName v w = Return False w"
    then show ?thesis by (intro exI [of _ False] exI [of _ w]) simp
  next
    fix st
    assume "SetProperty propertyName v w = Return True (SetGameState st w)"
    then show ?thesis by (intro exI [of _ True] exI [of _ "SetGameState st w"]) simp
  qed
qed


theorem SetProperty_failure_leaves_state_unchanged_witness:
  "SetProperty ''speed'' (AnyString ''GAME'') (started_world True)
     = Return False (started_world True)
   \<and> SetProperty ''gameState'' (AnyInt 1) (started_world True)
     = Return False (started_world True)
   \<and> SetProperty ''gameState'' (AnyString ''nonsense'') (started_world True)
     = Return False (started_world True)
   \<and> GetProperty ''gameState'' (started_world True) = AnyString ''ATTRACT''"
proof -
  have "GetProperty ''gameState'' (started_world True) = AnyString ''ATTRACT''"
    by (simp add: GetProperty_gameState GetGameState_def started_world_def Game_new_def
        InitProps_def SpawnProps_def InitPlayer_def SpawnPlayer_def Game_members_default_def
        Let_def)
  then show ?thesis
    using SetProperty_failure_leaves_state_unchanged
        [of "''speed''" "AnyString ''GAME''" "started_world True"]
      SetProperty_failure_leaves_state_unchanged
        [of "''gameState''" "AnyInt 1" "started_world True"]
      SetProperty_failure_leaves_state_unchanged
        [of "''gameState''" "AnyString ''nonsense''" "started_world True"]
    by simp
qed

text \<open>
  Claim C7. From any state, writing \<open>GAME\<close>, \<open>game\<close> or \<open>1\<close> to \<^verbatim>\<open>gameState\<close>
  returns true and reaches one and the same state, in which reading \<^verbatim>\<open>gameState\<close>
  yields the string \<open>GAME\<close>.
\<close>

theorem SetProperty_GAME_game_1_equivalent:
  "SetProperty ''gameState'' (AnyString ''GAME'') w = Return True (SetGameState GAME w)
   \<and> SetProperty ''gameState'' (AnyString ''game'') w = Return True (SetGameState GAME w)
   \<and> SetProperty ''gameState'' (AnyString ''1'') w = Return True (SetGameState GAME w)
   \<and> GetProperty ''gameState'' (SetGameState GAME w) = AnyString ''GAME''"
  by (simp add: SetProperty_string GetProperty_gameState)

theorem SetProperty_GAME_game_1_equivalent_witness:
  "SetProperty ''gameState'' (AnyString ''GAME'') (started_world True)
     = Return True (SetGameState GAME (started_world True))
   \<and> SetProperty ''gameState'' (AnyString ''game'') (started_world True)
     = Return True (SetGameState GAME (started_world True))
   \<and> SetProperty ''gameState'' (AnyString ''1'') (started_world True)
     = Return True (SetGameState GAME (started_world True))
   \<and> GetProperty ''gameState'' (SetGameState GAME (started_world True)) = AnyString ''GAME''"
  using SetProperty_GAME_game_1_equivalent [of "started_world True"]
  by simp

text \<open>
  Claim C8. Calling \<^verbatim>\<open>createCube\<close> with the three numbers 1.0, 2.0 and 3.0 returns a
  success whose message contains \<open>1.00\<close>, \<open>2.00\<close> and \<open>3.00\<close>, and leaves the game
  with exactly one prop more. The state reached is that of \<^verbatim>\<open>Game::CreateCube\<close> at
  position (1, 2, 3).
\<close>

theorem createCube_adds_one_prop_and_echoes_position:
  "\<exists>msg. CallMethod e ''createCube'' [AnyFloat 1, AnyFloat 2, AnyFloat 3] w
           = Return (Success (AnyString msg)) (CreateCube e (Vec3 1 2 3) w)
         \<and> length (m_props (g_game (CreateCube e (Vec3 1 2 3) w)))
             = length (m_props (g_game w)) + 1
         \<and> sublist ''1.00'' msg \<and> sublist ''2.00'' msg \<and> sublist ''3.00'' msg"
proof -
  define head where "head = ([CHR 0xE7, CHR 0xAB, CHR 0x8B, CHR 0xE6, CHR 0x96, CHR 0xB9,
      CHR 0xE9, CHR 0xAB, CHR 0x94, CHR 0xE5, CHR 0x89, CHR 0xB5, CHR 0xE5, CHR 0xBB, CHR 0xBA,
      CHR 0xE6, CHR 0x88, CHR 0x90, CHR 0xE5, CHR 0x8A, CHR 0x9F, CHR 0xEF, CHR 0xBC, CHR 0x8C,
      CHR 0xE4, CHR 0xBD, CHR 0x8D, CHR 0xE7, CHR 0xBD, CHR 0xAE] @ '': ('')"
  define msg where "msg = head @ ''1.000000, 2.000000, 3.000000)''"
  have call: "CallMethod e ''createCube'' [AnyFloat 1, AnyFloat 2, AnyFloat 3] w
                = Return (Success (AnyString msg)) (CreateCube e (Vec3 1 2 3) w)"
    by (simp add: CallMethod_def ExecuteCreateCube_one_two_three msg_def head_def)
  obtain cube where
    "m_props (g_game (CreateCube e (Vec3 1 2 3) w)) = m_props (g_game w) @ [cube]"
    using CreateCube_props by blast
  then have count: "length (m_props (g_game (CreateCube e (Vec3 1 2 3) w)))
                      = length (m_props (g_game w)) + 1"
    by simp
  have "msg = head @ ''1.00'' @ ''0000, 2.000000, 3.000000)''"
    by (simp add: msg_def)
  then have one: "sublist ''1.00'' msg"
    by (simp only: sublist_appendI)
  have "msg = (head @ ''1.000000, '') @ ''2.00'' @ ''0000, 3.000000)''"
    by (simp add: msg_def)
  then have two: "sublist ''2.00'' msg"
    by (simp only: sublist_appendI)
  have "msg = (head @ ''1.000000, 2.000000, '') @ ''3.00'' @ ''0000)''"
    by (simp add: msg_def)
  then have three: "sublist ''3.00'' msg"
    by (simp only: sublist_appendI)
  from call count one two three show ?thesis
    by blast
qed

theorem createCube_adds_one_prop_and_echoes_position_witness:
  "\<exists>msg. CallMethod idle_env ''createCube'' [AnyFloat 1, AnyFloat 2, AnyFloat 3]
             (started_world True)
           = Return (Success (AnyString msg))
               (CreateCube idle_env (Vec3 1 2 3) (started_world True))
         \<and> length (m_props (g_game (CreateCube idle_env (Vec3 1 2 3)
                  (started_world True)))) = 5
         \<and> sublist ''1.00'' msg \<and> sublist ''2.00'' msg \<and> sublist ''3.00'' msg"
proof -
  have "length (m_props (g_game (started_world True))) = 4"
    by (simp add: started_world_def Game_new_def InitProps_def SpawnProps_def InitPlayer_def
        SpawnPlayer_def Game_members_default_def Let_def)
  with createCube_adds_one_prop_and_echoes_position
         [of idle_env "started_world True"]
  show ?thesis by simp
qed

text \<open>
  Claim C9. For every index outside the prop list, \<^verbatim>\<open>Game::MoveProp\<close> does nothing but
  print a diagnostic that names the index and the size of the list: the game, and with it
  every prop's position, is as before. Called through the bridge, \<^verbatim>\<open>moveProp\<close> with
  such an index returns normally.
\<close>

theorem MoveProp_out_of_range_changes_nothing:
  "propIndex < 0 \<or> int (length (m_props (g_game w))) \<le> propIndex \<Longrightarrow>
   g_game (MoveProp propIndex (Vec3 a b c) w) = g_game w
   \<and> ext_calls (MoveProp propIndex (Vec3 a b c) w) =
       ext_calls w @
       [DebuggerPrintf
          (([CHR 0xE8, CHR 0xAD, CHR 0xA6, CHR 0xE5, CHR 0x91, CHR 0x8A, CHR 0xEF, CHR 0xBC,
              CHR 0x9A] @ ''JavaScript '' @ [CHR 0xE8, CHR 0xAB, CHR 0x8B, CHR 0xE6, CHR 0xB1,
              CHR 0x82, CHR 0xE7, CHR 0xA7, CHR 0xBB, CHR 0xE5, CHR 0x8B, CHR 0x95, CHR 0xE7,
              CHR 0x84, CHR 0xA1, CHR 0xE6, CHR 0x95, CHR 0x88, CHR 0xE7, CHR 0x9A, CHR 0x84,
              CHR 0xE7, CHR 0x89, CHR 0xA9, CHR 0xE4, CHR 0xBB, CHR 0xB6, CHR 0xE7, CHR 0xB4,
              CHR 0xA2, CHR 0xE5, CHR 0xBC, CHR 0x95] @ '' '') @ to_string_int propIndex
           @ ([CHR 0xEF, CHR 0xBC, CHR 0x88, CHR 0xE7, CHR 0xB8, CHR 0xBD, CHR 0xE5, CHR 0x85,
               CHR 0xB1] @ '' '') @ decimal (length (m_props (g_game w))) @ ('' '' @ [CHR 0xE5,
               CHR 0x80, CHR 0x8B, CHR 0xE7, CHR 0x89, CHR 0xA9, CHR 0xE4, CHR 0xBB, CHR 0xB6,
               CHR 0xEF, CHR 0xBC, CHR 0x89, CHR 0x0A]))]
   \<and> (\<exists>msg. CallMethod e ''moveProp'' [AnyInt propIndex, AnyFloat a, AnyFloat b, AnyFloat c] w
               = Return (Success (AnyString msg)) (MoveProp propIndex (Vec3 a b c) w))"
  by (simp add: MoveProp_invalid_index CallMethod_moveProp_numbers)

theorem MoveProp_out_of_range_changes_nothing_witness:
  "length (m_props (g_game (started_world True))) = 4
   \<and> g_game (MoveProp 99 (Vec3 0 0 0) (started_world True)) = g_game (started_world True)
   \<and> ext_calls (MoveProp 99 (Vec3 0 0 0) (started_world True)) =
       [DebuggerPrintf
          (([CHR 0xE8, CHR 0xAD, CHR 0xA6, CHR 0xE5, CHR 0x91, CHR 0x8A, CHR 0xEF, CHR 0xBC,
              CHR 0x9A] @ ''JavaScript '' @ [CHR 0xE8, CHR 0xAB, CHR 0x8B, CHR 0xE6, CHR 0xB1,
              CHR 0x82, CHR 0xE7, CHR 0xA7, CHR 0xBB, CHR 0xE5, CHR 0x8B, CHR 0x95, CHR 0xE7,
              CHR 0x84, CHR 0xA1, CHR 0xE6, CHR 0x95, CHR 0x88, CHR 0xE7, CHR 0x9A, CHR 0x84,
              CHR 0xE7, CHR 0x89, CHR 0xA9, CHR 0xE4, CHR 0xBB, CHR 0xB6, CHR 0xE7, CHR 0xB4,
              CHR 0xA2, CHR 0xE5, CHR 0xBC, CHR 0x95] @ '' '') @ ''99''
           @ ([CHR 0xEF, CHR 0xBC, CHR 0x88, CHR 0xE7, CHR 0xB8, CHR 0xBD, CHR 0xE5, CHR 0x85,
               CHR 0xB1] @ '' '') @ ''4'' @ ('' '' @ [CHR 0xE5, CHR 0x80, CHR 0x8B, CHR 0xE7,
               CHR 0x89, CHR 0xA9, CHR 0xE4, CHR 0xBB, CHR 0xB6, CHR 0xEF, CHR 0xBC, CHR 0x89,
               CHR 0x0A]))]
   \<and> (\<exists>msg. CallMethod idle_env ''moveProp'' [AnyInt 99, AnyFloat 0, AnyFloat 0, AnyFloat 0]
                 (started_world True)
               = Return (Success (AnyString msg)) (MoveProp 99 (Vec3 0 0 0) (started_world True)))"
proof -
  have "ext_calls (started_world True) = []"
    by (simp add: started_world_def)
  then show ?thesis
    using MoveProp_out_of_range_changes_nothing [of 99 "started_world True" 0 0 0 idle_env]
    by (simp add: started_world_props to_string_int_def decimal_small)
qed



section \<open>Further properties\<close>

text \<open>
  Each of the ten methods \<^verbatim>\<open>CallMethod\<close> dispatches succeeds when called with the
  listed number of arguments of the listed types. \<open>getPlayerPosition\<close> needs the player to
  exist; \<open>update\<close>, \<open>render\<close>, \<open>executeCommand\<close> and \<open>executeFile\<close> succeed whenever
  the native call they make returns.
\<close>

theorem dispatched_methods_succeed_on_typed_arguments:
  "CallMethod e ''appRequestQuit'' [] w = Return (Success AnyEmpty) (App_RequestQuit w)
   \<and> (\<exists>msg. CallMethod e ''createCube'' [AnyFloat a, AnyFloat b, AnyFloat c] w
          = Return (Success (AnyString msg)) (CreateCube e (Vec3 a b c) w))
   \<and> (\<exists>msg. CallMethod e ''moveProp'' [AnyInt i, AnyFloat a, AnyFloat b, AnyFloat c] w
          = Return (Success (AnyString msg)) (MoveProp i (Vec3 a b c) w))
   \<and> (m_player (g_game w) \<noteq> None \<longrightarrow>
        (\<exists>msg. CallMethod e ''getPlayerPosition'' [] w = Return (Success (AnyString msg)) w))
   \<and> (\<exists>msg. CallMethod e ''movePlayerCamera'' [AnyFloat a, AnyFloat b, AnyFloat c] w
          = Return (Success (AnyString msg)) (MovePlayerCamera (Vec3 a b c) w))
   \<and> (Game_Update e gdt sdt w = Return () w' \<longrightarrow>
        CallMethod e ''update'' [AnyFloat gdt, AnyFloat sdt] w
          = Return (Success (AnyString ''Update Success'')) w')
   \<and> (Game_Render e w = Return () w' \<longrightarrow>
        CallMethod e ''render'' [] w = Return (Success (AnyString ''Render Success'')) w')
   \<and> (ExecuteJavaScriptCommand e source w = Return () w' \<longrightarrow>
        (\<exists>msg. CallMethod e ''executeCommand'' [AnyString source] w
           = Return (Success (AnyString msg)) w'))
   \<and> (ExecuteJavaScriptFile e path w = Return () w' \<longrightarrow>
        (\<exists>msg. CallMethod e ''executeFile'' [AnyString path] w
           = Return (Success (AnyString msg)) w'))
   \<and> CallMethod e ''isAttractMode'' [] w = Return (Success (AnyBool (IsAttractMode w))) w"
proof (intro conjI impI)
  show "CallMethod e ''appRequestQuit'' [] w = Return (Success AnyEmpty) (App_RequestQuit w)"
    by (simp add: CallMethod_dispatch ExecuteAppRequestQuit_def)
  show "\<exists>msg. CallMethod e ''createCube'' [AnyFloat a, AnyFloat b, AnyFloat c] w
          = Return (Success (AnyString msg)) (CreateCube e (Vec3 a b c) w)"
    by (simp add: CallMethod_dispatch ExecuteCreateCube_def del: append.simps)
  show "\<exists>msg. CallMethod e ''moveProp'' [AnyInt i, AnyFloat a, AnyFloat b, AnyFloat c] w
          = Return (Success (AnyString msg)) (MoveProp i (Vec3 a b c) w)"
    by (simp add: CallMethod_moveProp_numbers del: append.simps)
  show "\<exists>msg. CallMethod e ''getPlayerPosition'' [] w = Return (Success (AnyString msg)) w"
    if "m_player (g_game w) \<noteq> None"
    using that
    by (auto simp add: CallMethod_dispatch ExecuteGetPlayerPosition_def GetPlayer_def Let_def
        simp del: append.simps)
  show "\<exists>msg. CallMethod e ''movePlayerCamera'' [AnyFloat a, AnyFloat b, AnyFloat c] w
          = Return (Success (AnyString msg)) (MovePlayerCamera (Vec3 a b c) w)"
    by (simp add: CallMethod_dispatch ExecuteMovePlayerCamera_def del: append.simps)
  show "CallMethod e ''update'' [AnyFloat gdt, AnyFloat sdt] w
          = Return (Success (AnyString ''Update Success'')) w'"
    if "Game_Update e gdt sdt w = Return () w'"
    using that by (simp add: CallMethod_dispatch ExecuteUpdate_def)
  show "CallMethod e ''render'' [] w = Return (Success (AnyString ''Render Success'')) w'"
    if "Game_Render e w = Return () w'"
    using that by (simp add: CallMethod_dispatch ExecuteRender_def)
  show "\<exists>msg. CallMethod e ''executeCommand'' [AnyString source] w
           = Return (Success (AnyString msg)) w'"
    if "ExecuteJavaScriptCommand e source w = Return () w'"
    using that
    by (simp add: CallMethod_dispatch ExecuteJavaScriptCommand_handler_def del: append.simps)
  show "\<exists>msg. CallMethod e ''executeFile'' [AnyString path] w
           = Return (Success (AnyString msg)) w'"
    if "ExecuteJavaScriptFile e path w = Return () w'"
    using that
    by (simp add: CallMethod_dispatch ExecuteJavaScriptFile_handler_def del: append.simps)
  show "CallMethod e ''isAttractMode'' [] w = Return (Success (AnyBool (IsAttractMode w))) w"
    by (simp add: CallMethod_dispatch ExecuteIsAttractMode_def)
qed

theorem dispatched_methods_succeed_on_typed_arguments_witness:
  "CallMethod idle_env ''isAttractMode'' [] (started_world True)
     = Return (Success (AnyBool True)) (started_world True)
   \<and> (\<exists>msg. CallMethod idle_env ''getPlayerPosition'' [] (started_world True)
          = Return (Success (AnyString msg)) (started_world True))
   \<and> (\<exists>msg. CallMethod idle_env ''createCube'' [AnyFloat 1, AnyFloat 2, AnyFloat 3]
            (started_world True)
          = Return (Success (AnyString msg))
              (CreateCube idle_env (Vec3 1 2 3) (started_world True)))"
  using dispatched_methods_succeed_on_typed_arguments
      [of idle_env "started_world True" 1 2 3]
  by (simp add: started_world_player started_world_fields IsAttractMode_def)


end
